theory Spec2Isabelle
  imports Complex_Main "HOL-Library.Word"
begin

unbundle bit_operations_syntax

section \<open>Machine integers\<close>

text \<open>
  The program counts and measures in C++ \<open>short\<close> and \<open>unsigned short\<close>. Values are
  kept as \<open>int\<close>; every place where the source stores into a 16-bit variable applies
  the wrap-around explicitly. Division is the truncating division of C++.
\<close>

definition toShort :: "int \<Rightarrow> int" where
  "toShort x = (x + 32768) mod 65536 - 32768"

definition toUShort :: "int \<Rightarrow> int" where
  "toUShort x = x mod 65536"

definition cdiv :: "int \<Rightarrow> int \<Rightarrow> int" where
  "cdiv a b = sgn a * sgn b * (\<bar>a\<bar> div \<bar>b\<bar>)"

datatype error =
    BaseException string
  | OutOfRange
  | UndefinedBehaviour
  | DivisionByZero

text \<open>An exception aborts everything that follows it.\<close>

definition bindE :: "error + 'a \<Rightarrow> ('a \<Rightarrow> error + 'b) \<Rightarrow> error + 'b" where
  "bindE m f = (case m of Inl e \<Rightarrow> Inl e | Inr x \<Rightarrow> f x)"

section \<open>singlePlay.h: a single play\<close>

datatype PlayType =
    run_left | run_middle | run_right
  | pass_short_right | pass_short_middle | pass_short_left
  | pass_deep_right | pass_deep_middle | pass_deep_left
  | field_goal | punt

datatype PlayCharacteristic =
    down_number | distance_needed | field_location | time_remaining | score_differential

datatype DistanceNeeded = over_twenty | twenty_to_ten | ten_to_four | four_to_one | one_or_less

datatype FieldLocation = own_red_zone | middle | opp_red_zone

datatype TimeRemaining = outside_two_minutes | inside_two_minutes

datatype ScoreDifferential =
    down_over_fourteen | down_over_seven | down_seven_less | even_score
  | up_seven_less | up_over_seven | up_over_fourteen

text \<open>The numeric value of each enumerator (enumerators count from zero).\<close>

fun playTypeIdx :: "PlayType \<Rightarrow> nat" where
  "playTypeIdx run_left = 0"
| "playTypeIdx run_middle = 1"
| "playTypeIdx run_right = 2"
| "playTypeIdx pass_short_right = 3"
| "playTypeIdx pass_short_middle = 4"
| "playTypeIdx pass_short_left = 5"
| "playTypeIdx pass_deep_right = 6"
| "playTypeIdx pass_deep_middle = 7"
| "playTypeIdx pass_deep_left = 8"
| "playTypeIdx field_goal = 9"
| "playTypeIdx punt = 10"

definition allPlayTypes :: "PlayType list" where
  "allPlayTypes = [run_left, run_middle, run_right, pass_short_right, pass_short_middle,
     pass_short_left, pass_deep_right, pass_deep_middle, pass_deep_left, field_goal, punt]"

fun distanceNeededIdx :: "DistanceNeeded \<Rightarrow> nat" where
  "distanceNeededIdx over_twenty = 0"
| "distanceNeededIdx twenty_to_ten = 1"
| "distanceNeededIdx ten_to_four = 2"
| "distanceNeededIdx four_to_one = 3"
| "distanceNeededIdx one_or_less = 4"

fun fieldLocationIdx :: "FieldLocation \<Rightarrow> nat" where
  "fieldLocationIdx own_red_zone = 0"
| "fieldLocationIdx middle = 1"
| "fieldLocationIdx opp_red_zone = 2"

fun timeRemainingIdx :: "TimeRemaining \<Rightarrow> nat" where
  "timeRemainingIdx outside_two_minutes = 0"
| "timeRemainingIdx inside_two_minutes = 1"

fun scoreDifferentialIdx :: "ScoreDifferential \<Rightarrow> nat" where
  "scoreDifferentialIdx down_over_fourteen = 0"
| "scoreDifferentialIdx down_over_seven = 1"
| "scoreDifferentialIdx down_seven_less = 2"
| "scoreDifferentialIdx even_score = 3"
| "scoreDifferentialIdx up_seven_less = 4"
| "scoreDifferentialIdx up_over_seven = 5"
| "scoreDifferentialIdx up_over_fourteen = 6"

text \<open>
  The fields of \<open>SinglePlay\<close>. The down is an \<open>unsigned char\<close> that the constructor
  stores unchecked, so it is a number; the other situational fields are enumerations.
\<close>

record SinglePlay =
  refId :: nat
  playType :: PlayType
  down :: nat
  distanceNeeded :: DistanceNeeded
  fieldLocation :: FieldLocation
  timeRemaining :: TimeRemaining
  scoreDifferential :: ScoreDifferential
  distanceGained :: int
  turnedOver :: bool

definition getPlayTypeCount :: nat where
  "getPlayTypeCount = playTypeIdx punt + 1"

fun getCategoryCount :: "PlayCharacteristic \<Rightarrow> nat" where
  "getCategoryCount down_number = 5"
| "getCategoryCount distance_needed = distanceNeededIdx one_or_less + 1"
| "getCategoryCount field_location = fieldLocationIdx opp_red_zone + 1"
| "getCategoryCount time_remaining = timeRemainingIdx inside_two_minutes + 1"
| "getCategoryCount score_differential = scoreDifferentialIdx up_over_fourteen + 1"

definition distanceToDistanceNeeded :: "int \<Rightarrow> DistanceNeeded" where
  "distanceToDistanceNeeded d =
     (if d \<le> 1 then one_or_less
      else if d \<le> 4 then four_to_one
      else if d \<le> 10 then ten_to_four
      else if d < 20 then twenty_to_ten
      else over_twenty)"

definition yardsToFieldLocation :: "int \<Rightarrow> FieldLocation" where
  "yardsToFieldLocation yardLine =
     (if yardLine \<ge> 90 then own_red_zone
      else if yardLine > 10 then middle
      else opp_red_zone)"

definition minutesToTimeRemaining :: "int \<Rightarrow> TimeRemaining" where
  "minutesToTimeRemaining minutes =
     (if minutes < 2 \<or> (minutes \<ge> 30 \<and> minutes < 32) then inside_two_minutes
      else outside_two_minutes)"

definition scoreToScoreDifferential :: "int \<Rightarrow> int \<Rightarrow> ScoreDifferential" where
  "scoreToScoreDifferential ownScore oppScore =
     (let scoreDiff = toShort (ownScore - oppScore)
      in if scoreDiff < -14 then down_over_fourteen
         else if scoreDiff < -7 then down_over_seven
         else if scoreDiff < 0 then down_seven_less
         else if scoreDiff = 0 then even_score
         else if scoreDiff \<le> 7 then up_seven_less
         else if scoreDiff \<le> 14 then up_over_seven
         else up_over_fourteen)"

text \<open>The constructor: the down is narrowed to a byte, the other inputs are categorised.\<close>

definition newSinglePlay ::
  "nat \<Rightarrow> PlayType \<Rightarrow> int \<Rightarrow> int \<Rightarrow> int \<Rightarrow> int \<Rightarrow> int \<Rightarrow> int \<Rightarrow> int \<Rightarrow> bool \<Rightarrow> SinglePlay" where
  "newSinglePlay rid pt dwn togo yardLine minutes ownScore oppScore gained turned =
     \<lparr> refId = rid, playType = pt, down = nat (dwn mod 256),
       distanceNeeded = distanceToDistanceNeeded togo,
       fieldLocation = yardsToFieldLocation yardLine,
       timeRemaining = minutesToTimeRemaining minutes,
       scoreDifferential = scoreToScoreDifferential ownScore oppScore,
       distanceGained = gained, turnedOver = turned \<rparr>"

fun getValue :: "PlayCharacteristic \<Rightarrow> SinglePlay \<Rightarrow> nat" where
  "getValue down_number p = down p"
| "getValue distance_needed p = distanceNeededIdx (distanceNeeded p)"
| "getValue field_location p = fieldLocationIdx (fieldLocation p)"
| "getValue time_remaining p = timeRemainingIdx (timeRemaining p)"
| "getValue score_differential p = scoreDifferentialIdx (scoreDifferential p)"

section \<open>playIndexSet: the star schema of per-attribute partitions\<close>

text \<open>
  A \<open>PlayIterator\<close> refers to a play of the immutable store; the model keeps the play it
  refers to. A \<open>PlayIndex\<close> is a sequence of such references and a \<open>CategoryIndex\<close> has
  one \<open>PlayIndex\<close> per category value.
\<close>

type_synonym PlayIndex = "SinglePlay list"
type_synonym CategoryIndex = "PlayIndex list"

record PlayIndexSet =
  indexes :: "PlayCharacteristic set"
  downIndex :: CategoryIndex
  distanceNeededIndex :: CategoryIndex
  fieldLocationIndex :: CategoryIndex
  timeRemainingIndex :: CategoryIndex
  scoreDifferentialIndex :: CategoryIndex

definition emptyPlayIndexSet :: PlayIndexSet where
  "emptyPlayIndexSet =
     \<lparr> indexes = {}, downIndex = [], distanceNeededIndex = [], fieldLocationIndex = [],
       timeRemainingIndex = [], scoreDifferentialIndex = [] \<rparr>"

fun getIndex :: "PlayIndexSet \<Rightarrow> PlayCharacteristic \<Rightarrow> CategoryIndex" where
  "getIndex s down_number = downIndex s"
| "getIndex s distance_needed = distanceNeededIndex s"
| "getIndex s field_location = fieldLocationIndex s"
| "getIndex s time_remaining = timeRemainingIndex s"
| "getIndex s score_differential = scoreDifferentialIndex s"

definition getIndexesAvailable :: "PlayIndexSet \<Rightarrow> PlayCharacteristic set" where
  "getIndexesAvailable s = indexes s"

text \<open>Iteration over a \<open>std::set\<close> of characteristics visits them in enumerator order.\<close>

definition allCharacteristics :: "PlayCharacteristic list" where
  "allCharacteristics =
     [down_number, distance_needed, field_location, time_remaining, score_differential]"

definition characteristicList :: "PlayCharacteristic set \<Rightarrow> PlayCharacteristic list" where
  "characteristicList S = filter (\<lambda>c. c \<in> S) allCharacteristics"

fun clearIndex :: "PlayIndexSet \<Rightarrow> PlayCharacteristic \<Rightarrow> PlayIndexSet" where
  "clearIndex s down_number = s\<lparr>downIndex := []\<rparr>"
| "clearIndex s distance_needed = s\<lparr>distanceNeededIndex := []\<rparr>"
| "clearIndex s field_location = s\<lparr>fieldLocationIndex := []\<rparr>"
| "clearIndex s time_remaining = s\<lparr>timeRemainingIndex := []\<rparr>"
| "clearIndex s score_differential = s\<lparr>scoreDifferentialIndex := []\<rparr>"

definition dropIndex :: "PlayIndexSet \<Rightarrow> PlayCharacteristic \<Rightarrow> PlayIndexSet" where
  "dropIndex s c =
     (if card (indexes s) = 1 then s
      else (clearIndex s c)\<lparr>indexes := indexes s - {c}\<rparr>)"

definition setIndexes ::
  "CategoryIndex \<Rightarrow> CategoryIndex \<Rightarrow> CategoryIndex \<Rightarrow> CategoryIndex \<Rightarrow> CategoryIndex
     \<Rightarrow> error + PlayIndexSet" where
  "setIndexes dIdx dnIdx flIdx trIdx sdIdx =
     (if dIdx = [] \<or> dnIdx = [] \<or> flIdx = [] \<or> trIdx = [] \<or> sdIdx = []
      then Inl (BaseException ''Index create failed, some data indexes empty after build'')
      else Inr \<lparr> indexes = {down_number, distance_needed, field_location, time_remaining,
                            score_differential},
                 downIndex = dIdx, distanceNeededIndex = dnIdx, fieldLocationIndex = flIdx,
                 timeRemainingIndex = trIdx, scoreDifferentialIndex = sdIdx \<rparr>)"

subsection \<open>Splitting one index\<close>

text \<open>
  \<open>splitIndexHelper\<close> distributes the plays of one \<open>PlayIndex\<close> over one bucket per
  category of the splitting characteristic, by the play's own value. The source writes
  \<open>newIndexes[value]\<close> unchecked; a value beyond the last bucket is undefined behaviour
  and is an error of the model.
\<close>

fun splitIndexHelperLoop ::
  "PlayCharacteristic \<Rightarrow> PlayIndex \<Rightarrow> PlayIndex list \<Rightarrow> error + PlayIndex list" where
  "splitIndexHelperLoop c [] newIndexes = Inr newIndexes"
| "splitIndexHelperLoop c (p # ps) newIndexes =
     (if getValue c p < length newIndexes
      then splitIndexHelperLoop c ps
             (newIndexes[getValue c p := newIndexes ! getValue c p @ [p]])
      else Inl UndefinedBehaviour)"

definition splitIndexHelper :: "PlayCharacteristic \<Rightarrow> PlayIndex \<Rightarrow> error + PlayIndex list" where
  "splitIndexHelper c existIndex =
     (let newIndexes = replicate (getCategoryCount c) []
      in if newIndexes = [] then Inr newIndexes
         else splitIndexHelperLoop c existIndex newIndexes)"

text \<open>The first loop of \<open>splitIndex\<close>: one helper call per category of the existing index.\<close>

fun splitAll :: "PlayCharacteristic \<Rightarrow> CategoryIndex \<Rightarrow> error + PlayIndex list list" where
  "splitAll c [] = Inr []"
| "splitAll c (idx # rest) =
     bindE (splitIndexHelper c idx) (\<lambda>r.
     bindE (splitAll c rest) (\<lambda>rs. Inr (r # rs)))"

text \<open>
  \<open>splitCounts[index2] += results[index][index2].size()\<close>, accumulated in a \<open>short\<close>
  over all categories of the existing index.
\<close>

definition splitCountOf :: "PlayIndex list list \<Rightarrow> nat \<Rightarrow> int" where
  "splitCountOf results k = fold (\<lambda>r acc. toShort (acc + int (length (r ! k)))) results 0"

definition column :: "PlayIndex list list \<Rightarrow> nat \<Rightarrow> CategoryIndex" where
  "column results k = map (\<lambda>r. r ! k) results"

text \<open>The search for the first split category with a non-zero count, from \<open>index\<close> on.\<close>

fun firstNonZero :: "(nat \<Rightarrow> int) \<Rightarrow> nat \<Rightarrow> nat \<Rightarrow> nat" where
  "firstNonZero cnt n 0 = n"
| "firstNonZero cnt n (Suc fuel) =
     (if cnt n = 0 then firstNonZero cnt (Suc n) fuel else n)"

text \<open>
  The second loop: every later category with a non-zero count goes to the next new index,
  in order; \<open>todo\<close> holds the category numbers still to visit and \<open>acc\<close> the new indexes
  filled so far (\<open>index2\<close> is its length).
\<close>

fun distribute ::
  "(nat \<Rightarrow> int) \<Rightarrow> PlayIndex list list \<Rightarrow> nat \<Rightarrow> nat list \<Rightarrow> CategoryIndex list
     \<Rightarrow> error + CategoryIndex list" where
  "distribute cnt results nNew [] acc =
     (if length acc \<noteq> nNew
      then Inl (BaseException ''Index split failed, generated too many pieces'')
      else Inr acc)"
| "distribute cnt results nNew (k # todo) acc =
     (if cnt k \<noteq> 0
      then (if length acc \<ge> nNew
            then Inl (BaseException ''Index split failed, generated too many pieces'')
            else distribute cnt results nNew todo (acc @ [column results k]))
      else distribute cnt results nNew todo acc)"

text \<open>
  \<open>splitIndex\<close> returns the rewritten existing index together with what was appended
  to each of the \<open>nNew\<close> new indexes (all of which are empty when it is called).
\<close>

definition splitIndex ::
  "PlayCharacteristic \<Rightarrow> CategoryIndex \<Rightarrow> nat \<Rightarrow> error + (CategoryIndex \<times> CategoryIndex list)" where
  "splitIndex c existIndex nNew =
     (if existIndex = [] then Inr (existIndex, replicate nNew [])
      else bindE (splitAll c existIndex) (\<lambda>results.
          let n = getCategoryCount c;
              cnt = splitCountOf results;
              first = firstNonZero cnt 0 n
          in if first = n
             then Inl (BaseException ''Index split failed, generated pieces with no entries'')
             else bindE (distribute cnt results nNew [Suc first ..< n] [])
                    (\<lambda>news. Inr (column results first, news))))"

subsection \<open>Splitting the whole set\<close>

definition countNonEmpty :: "CategoryIndex \<Rightarrow> nat" where
  "countNonEmpty idx = length (filter (\<lambda>x. x \<noteq> []) idx)"

text \<open>
  \<open>splitIndexByCharacteristic\<close> counts the populated categories of the partition to
  split by, drops that partition, and splits each of the five fields (a dropped field
  has no category, so its split has nothing to do). The counter \<open>splitCount\<close> and the
  loop counters of \<open>splitIndex\<close> are \<open>unsigned short\<close>; they range over the categories
  of one partition, of which \<open>getCategoryCount\<close> gives at most seven, and are natural
  numbers here. The play counts, which grow with the data, keep their 16 bits.
\<close>

definition splitIndexByCharacteristic ::
  "PlayCharacteristic \<Rightarrow> PlayIndexSet \<Rightarrow> error + (PlayIndexSet \<times> PlayIndexSet list)" where
  "splitIndexByCharacteristic c s0 =
     (let splitCount = countNonEmpty (getIndex s0 c);
          s = dropIndex s0 c
      in if splitCount \<le> 1 then Inr (s, [])
         else
           let nNew = splitCount - 1 in
           bindE (splitIndex c (downIndex s) nNew) (\<lambda>(d, ds).
           bindE (splitIndex c (distanceNeededIndex s) nNew) (\<lambda>(dn, dns).
           bindE (splitIndex c (fieldLocationIndex s) nNew) (\<lambda>(fl, fls).
           bindE (splitIndex c (timeRemainingIndex s) nNew) (\<lambda>(tr, trs).
           bindE (splitIndex c (scoreDifferentialIndex s) nNew) (\<lambda>(sd, sds).
             Inr (s\<lparr> downIndex := d, distanceNeededIndex := dn, fieldLocationIndex := fl,
                     timeRemainingIndex := tr, scoreDifferentialIndex := sd \<rparr>,
                  map (\<lambda>i. \<lparr> indexes = indexes s, downIndex = ds ! i,
                              distanceNeededIndex = dns ! i, fieldLocationIndex = fls ! i,
                              timeRemainingIndex = trs ! i, scoreDifferentialIndex = sds ! i \<rparr>)
                      [0 ..< nNew])))))))"

definition recordCount :: "CategoryIndex \<Rightarrow> nat" where
  "recordCount idx = sum_list (map length idx)"

section \<open>playStats: summaries of groups of plays\<close>

record OverallPlaySummary =
  averageDistance :: int
  distanceVariance :: int
  turnoverPercentage :: int
  totalCount :: int

text \<open>
  \<open>(short)sqrt(totalVariance)\<close>: the square root of a non-negative \<open>int\<close>, truncated.
  The search counts upwards from zero.
\<close>

fun sqrtSearch :: "nat \<Rightarrow> nat \<Rightarrow> nat \<Rightarrow> nat" where
  "sqrtSearch n k 0 = k"
| "sqrtSearch n k (Suc fuel) =
     (if Suc k * Suc k \<le> n then sqrtSearch n (Suc k) fuel else k)"

definition isqrt :: "int \<Rightarrow> int" where
  "isqrt v = int (sqrtSearch (nat v) 0 (nat v))"

text \<open>
  The constructor of \<open>OverallPlaySummary\<close>. The count, the running total of the
  distances, the average and the results are \<open>short\<close>; the variance is accumulated
  in an \<open>int\<close>, which the source relies on not to overflow.
\<close>

definition newOverallPlaySummary :: "int list \<Rightarrow> int \<Rightarrow> OverallPlaySummary" where
  "newOverallPlaySummary playDistances turnovers =
     (let total = toShort (int (length playDistances))
      in if total > 0
         then
           let totalDistance = fold (\<lambda>d acc. toShort (acc + d)) playDistances 0;
               average = toShort (cdiv totalDistance total);
               totalVariance = (\<Sum>d\<leftarrow>playDistances. (d - average) * (d - average))
           in \<lparr> averageDistance = average,
                distanceVariance = toShort (isqrt (cdiv totalVariance total)),
                turnoverPercentage = toShort (cdiv (turnovers * 1000) total),
                totalCount = total \<rparr>
         else \<lparr> averageDistance = 0, distanceVariance = 0, turnoverPercentage = 0,
                totalCount = total \<rparr>)"

type_synonym OverallSummaryData = "OverallPlaySummary list"

record DetailedPlaySummary =
  playDistances :: "int list"
  turnoverCount :: int
  groupStats :: OverallPlaySummary
  overallStats :: OverallPlaySummary
  percentOfConditionPlays :: int
  percentOfTypePlays :: int

definition getPlayCount :: "DetailedPlaySummary \<Rightarrow> int" where
  "getPlayCount d = toShort (int (length (playDistances d)))"

text \<open>
  \<open>((short)_playDistances.size() * 1000) / denominator\<close>, stored in a \<open>short\<close>.
  An integer division by zero stops the program; it is an error of the model.
\<close>

definition perMille :: "int list \<Rightarrow> int \<Rightarrow> error + int" where
  "perMille distances denominator =
     (if denominator = 0 then Inl DivisionByZero
      else Inr (toShort (cdiv (toShort (int (length distances)) * 1000) denominator)))"

definition newDetailedPlaySummary ::
  "int list \<Rightarrow> int \<Rightarrow> int \<Rightarrow> OverallPlaySummary \<Rightarrow> error + DetailedPlaySummary" where
  "newDetailedPlaySummary distances turnovers conditionPlayCount overallTypeStatistics =
     bindE (perMille (sort distances) conditionPlayCount) (\<lambda>pctCondition.
     bindE (perMille (sort distances) (totalCount overallTypeStatistics)) (\<lambda>pctType.
       Inr \<lparr> playDistances = sort distances, turnoverCount = turnovers,
             groupStats = newOverallPlaySummary distances turnovers,
             overallStats = overallTypeStatistics,
             percentOfConditionPlays = pctCondition,
             percentOfTypePlays = pctType \<rparr>))"

definition updateConditionStats :: "DetailedPlaySummary \<Rightarrow> int \<Rightarrow> error + DetailedPlaySummary" where
  "updateConditionStats d totalMergedPlays =
     bindE (perMille (playDistances d) totalMergedPlays) (\<lambda>pct.
       Inr (d\<lparr>percentOfConditionPlays := pct\<rparr>))"

definition merge :: "DetailedPlaySummary \<Rightarrow> DetailedPlaySummary \<Rightarrow> int \<Rightarrow> error + DetailedPlaySummary" where
  "merge d other totalMergedPlays =
     (let distances = sort (playDistances d @ playDistances other);
          turnovers = toShort (turnoverCount d + turnoverCount other)
      in bindE (perMille distances (totalCount (overallStats d))) (\<lambda>pctType.
           updateConditionStats
             (d\<lparr> playDistances := distances, turnoverCount := turnovers,
                 groupStats := newOverallPlaySummary distances turnovers,
                 percentOfTypePlays := pctType \<rparr>)
             totalMergedPlays))"

text \<open>
  \<open>DetailedPlayData\<close> is a \<open>std::map\<close> from play type to summary: its entries in key
  order, one per key.
\<close>

type_synonym DetailedPlayData = "(PlayType \<times> DetailedPlaySummary) list"

subsection \<open>Building the summaries of an index set\<close>

text \<open>
  \<open>indexesToCounts\<close> reads the first available index and collects, per play type, the
  distances gained and the number of turnovers.
\<close>

definition countPlay ::
  "SinglePlay \<Rightarrow> int list list \<times> int list \<Rightarrow> int list list \<times> int list" where
  "countPlay p acc =
     (let i = playTypeIdx (playType p); distances = fst acc; turnoverCounts = snd acc
      in (distances[i := distances ! i @ [distanceGained p]],
          if turnedOver p then turnoverCounts[i := toShort (turnoverCounts ! i + 1)]
          else turnoverCounts))"

definition indexesToCounts ::
  "PlayIndexSet \<Rightarrow> int list list \<times> int list \<Rightarrow> int list list \<times> int list" where
  "indexesToCounts s acc =
     (case characteristicList (getIndexesAvailable s) of
        [] \<Rightarrow> acc
      | testIndex # _ \<Rightarrow> fold countPlay (concat (getIndex s testIndex)) acc)"

definition buildSummaryData :: "PlayIndexSet \<Rightarrow> OverallSummaryData" where
  "buildSummaryData s =
     (let counts = indexesToCounts s (replicate getPlayTypeCount [], replicate getPlayTypeCount 0)
      in map (\<lambda>i. newOverallPlaySummary (fst counts ! i) (snd counts ! i))
           [0 ..< getPlayTypeCount])"

fun insertSummaries ::
  "PlayType list \<Rightarrow> int list list \<Rightarrow> int list \<Rightarrow> int \<Rightarrow> OverallSummaryData
     \<Rightarrow> error + DetailedPlayData" where
  "insertSummaries [] distances turnoverCounts totalPlayCount overallData = Inr []"
| "insertSummaries (t # ts) distances turnoverCounts totalPlayCount overallData =
     (if distances ! playTypeIdx t \<noteq> []
      then (if playTypeIdx t < length overallData
            then bindE (newDetailedPlaySummary (distances ! playTypeIdx t)
                          (turnoverCounts ! playTypeIdx t) totalPlayCount
                          (overallData ! playTypeIdx t)) (\<lambda>d.
                 bindE (insertSummaries ts distances turnoverCounts totalPlayCount overallData)
                   (\<lambda>rest. Inr ((t, d) # rest)))
            else Inl OutOfRange)
      else insertSummaries ts distances turnoverCounts totalPlayCount overallData)"

definition buildDetailedData :: "PlayIndexSet \<Rightarrow> OverallSummaryData \<Rightarrow> error + DetailedPlayData" where
  "buildDetailedData s overallData =
     (let counts = indexesToCounts s (replicate getPlayTypeCount [], replicate getPlayTypeCount 0);
          totalPlayCount = fold (\<lambda>ds acc. toShort (acc + int (length ds))) (fst counts) 0
      in insertSummaries allPlayTypes (fst counts) (snd counts) totalPlayCount overallData)"

subsection \<open>Merging two sets of summaries\<close>

text \<open>
  The inner \<open>while\<close> loop of \<open>mergeData\<close>: entries of the result with a smaller key than
  the entry being merged get their share of the node total recomputed and are passed.
  \<open>passed\<close> holds the entries before \<open>resultPtr\<close>, the third list those from it on.
\<close>

fun advance ::
  "int \<Rightarrow> PlayType \<Rightarrow> DetailedPlayData \<Rightarrow> DetailedPlayData
     \<Rightarrow> error + (DetailedPlayData \<times> DetailedPlayData)" where
  "advance playCount k passed [] = Inr (passed, [])"
| "advance playCount k passed ((k', r) # rs) =
     (if playTypeIdx k' < playTypeIdx k
      then bindE (updateConditionStats r playCount) (\<lambda>r'.
             advance playCount k (passed @ [(k', r')]) rs)
      else Inr (passed, (k', r) # rs))"

text \<open>
  The outer loop over the entries to merge in. After the step for one entry,
  \<open>resultPtr\<close> stays on the merged or inserted entry. The insertion hints of the source
  do not change where \<open>std::map\<close> puts the entry. When the entries to merge in run out,
  the loop ends and the entries from \<open>resultPtr\<close> on are returned as they are.
\<close>

fun mergeLoop ::
  "int \<Rightarrow> DetailedPlayData \<Rightarrow> DetailedPlayData \<Rightarrow> DetailedPlayData
     \<Rightarrow> error + DetailedPlayData" where
  "mergeLoop playCount passed rest [] = Inr (passed @ rest)"
| "mergeLoop playCount passed rest ((k, d) # others) =
     bindE (advance playCount k passed rest) (\<lambda>(passed', rest').
       case rest' of
         (k', r) # rs \<Rightarrow>
           (if k' = k
            then bindE (merge r d playCount) (\<lambda>r'.
                   mergeLoop playCount passed' ((k', r') # rs) others)
            else bindE (updateConditionStats d playCount) (\<lambda>d'.
                   mergeLoop playCount passed' ((k, d') # (k', r) # rs) others))
       | [] \<Rightarrow>
           bindE (updateConditionStats d playCount) (\<lambda>d'.
             mergeLoop playCount passed' [(k, d')] others))"

definition mergeData :: "DetailedPlayData \<Rightarrow> DetailedPlayData \<Rightarrow> error + DetailedPlayData" where
  "mergeData result other =
     (let playCount = fold (\<lambda>e acc. toShort (acc + getPlayCount (snd e))) (result @ other) 0
      in mergeLoop playCount [] result other)"

section \<open>decisionNode: the tree\<close>

text \<open>
  One class plays both roles: a node without children is a leaf. \<open>_decisionValue\<close> is
  only assigned when a split candidate is recorded; \<open>None\<close> stands for the member never
  having been assigned.
\<close>

datatype DecisionNode =
  DecisionNode (childNodes: "DecisionNode list")
               (decisionValue: "PlayCharacteristic option")
               (categoryChildMapping: "int list")
               (playData: DetailedPlayData)

definition isLeaf :: "DecisionNode \<Rightarrow> bool" where
  "isLeaf n = (childNodes n = [])"

definition MinInformationGain :: real where
  "MinInformationGain = 0.02"

subsection \<open>Lookup\<close>

text \<open>
  The private overload takes the down and the distance as \<open>short\<close> and the other three
  as categories. \<open>vector::at\<close> throws \<open>std::out_of_range\<close> for an index outside the
  vector; a negative \<open>short\<close> converts to an index beyond any vector.
\<close>

definition testValueOf ::
  "PlayCharacteristic option \<Rightarrow> int \<Rightarrow> int \<Rightarrow> FieldLocation \<Rightarrow> TimeRemaining
     \<Rightarrow> ScoreDifferential \<Rightarrow> int" where
  "testValueOf dv dwn togo fl tr sd =
     (case dv of
        Some down_number \<Rightarrow> dwn
      | Some distance_needed \<Rightarrow> togo
      | Some field_location \<Rightarrow> int (fieldLocationIdx fl)
      | Some time_remaining \<Rightarrow> int (timeRemainingIdx tr)
      | Some score_differential \<Rightarrow> int (scoreDifferentialIdx sd)
      | None \<Rightarrow> 0)"

function findPlaysByCategory ::
  "DecisionNode \<Rightarrow> int \<Rightarrow> int \<Rightarrow> FieldLocation \<Rightarrow> TimeRemaining \<Rightarrow> ScoreDifferential
     \<Rightarrow> error + DetailedPlayData" where
  "findPlaysByCategory n dwn togo fl tr sd =
     (if isLeaf n then Inr (playData n)
      else
        let testValue = testValueOf (decisionValue n) dwn togo fl tr sd
        in if 0 \<le> testValue \<and> testValue < int (length (categoryChildMapping n))
           then
             let childIndex = categoryChildMapping n ! nat testValue
             in if childIndex \<ge> 0
                then (if nat childIndex < length (childNodes n)
                      then findPlaysByCategory (childNodes n ! nat childIndex) dwn togo fl tr sd
                      else Inl OutOfRange)
                else Inr (playData n)
           else Inl OutOfRange)"
  by pat_completeness auto
termination
proof (relation "measure (\<lambda>(n, dwn, togo, fl, tr, sd). size n)")
  show "wf (measure (\<lambda>(n, dwn, togo, fl, tr, sd). size n))"
    by simp
next
  fix n :: DecisionNode and dwn togo :: int and fl tr sd testValue childIndex
  assume "nat childIndex < length (childNodes n)"
  then have "childNodes n ! nat childIndex \<in> set (childNodes n)"
    by simp
  then have "size (childNodes n ! nat childIndex) < size n"
    by (cases n) (simp add: less_Suc_eq_le size_list_estimation')
  then show "((childNodes n ! nat childIndex, dwn, togo, fl, tr, sd), (n, dwn, togo, fl, tr, sd))
          \<in> measure (\<lambda>(n, dwn, togo, fl, tr, sd). size n)"
    by simp
qed

declare findPlaysByCategory.simps [simp del]

text \<open>
  The public overload converts the yard line, the minutes and the scores to categories
  and hands the down and the distance on as they are.
\<close>

definition findPlays ::
  "DecisionNode \<Rightarrow> int \<Rightarrow> int \<Rightarrow> int \<Rightarrow> int \<Rightarrow> int \<Rightarrow> int \<Rightarrow> error + DetailedPlayData" where
  "findPlays n dwn togo yardLine minutes ownScore oppScore =
     findPlaysByCategory n dwn togo (yardsToFieldLocation yardLine)
       (minutesToTimeRemaining minutes) (scoreToScoreDifferential ownScore oppScore)"

subsection \<open>Pruning: the three tests\<close>

text \<open>The first test counts the children whose summary is one play type with one play.\<close>

definition singlePlayLeafCount :: "DecisionNode list \<Rightarrow> nat" where
  "singlePlayLeafCount cs =
     length (filter (\<lambda>c. length (playData c) = 1 \<and> getPlayCount (snd (hd (playData c))) = 1) cs)"

definition overfitSingle :: "DecisionNode list \<Rightarrow> bool" where
  "overfitSingle cs = (singlePlayLeafCount cs \<ge> length cs - 1)"

text \<open>
  The state of the scan over the children: the running play total (an
  \<open>unsigned short\<close>) and four \<open>bitset<11>\<close> indexed by play type.
\<close>

record PruneScan =
  totalPlayCount :: "16 word"
  singlePlays :: "11 word"
  multiPlays :: "11 word"
  anySignificant :: "11 word"
  allSignificant :: "11 word"

definition bitOf :: "PlayType \<Rightarrow> 11 word" where
  "bitOf t = push_bit (playTypeIdx t) 1"

text \<open>First inner loop: totals, single and multiple plays, the most frequent play.\<close>

definition scanEntry ::
  "PlayType \<times> DetailedPlaySummary \<Rightarrow> PruneScan \<times> int \<Rightarrow> PruneScan \<times> int" where
  "scanEntry e acc =
     (let st = fst acc; mostFrequentPlay = snd acc; n = getPlayCount (snd e);
          st1 = st\<lparr>totalPlayCount := totalPlayCount st + word_of_int n\<rparr>;
          st2 = (if n > 1 then st1\<lparr>multiPlays := multiPlays st1 OR bitOf (fst e)\<rparr>
                 else st1\<lparr>singlePlays := singlePlays st1 OR bitOf (fst e)\<rparr>)
      in (st2, if n > mostFrequentPlay then n else mostFrequentPlay))"

text \<open>Second inner loop: the largest share of the node total, kept in an \<open>unsigned short\<close>.\<close>

definition maxPercentageOf :: "DetailedPlayData \<Rightarrow> int" where
  "maxPercentageOf pd =
     fold (\<lambda>e m. if percentOfConditionPlays (snd e) > m
                  then toUShort (percentOfConditionPlays (snd e)) else m) pd 0"

definition significantPlaysOf :: "DetailedPlayData \<Rightarrow> int \<Rightarrow> int \<Rightarrow> 11 word" where
  "significantPlaysOf pd threshold mostFrequentPlay =
     fold (\<lambda>e w. if percentOfConditionPlays (snd e) \<ge> threshold \<or> mostFrequentPlay \<le> 5
                  then w OR bitOf (fst e) else w) pd 0"

text \<open>\<open>maxPercentage *= 3; maxPercentage /= 4\<close>, on an \<open>unsigned short\<close>.\<close>

definition significanceThreshold :: "DetailedPlayData \<Rightarrow> int" where
  "significanceThreshold pd = toUShort (toUShort (maxPercentageOf pd * 3) div 4)"

definition scanChild :: "DecisionNode \<Rightarrow> PruneScan \<Rightarrow> PruneScan" where
  "scanChild c st =
     (let r = fold scanEntry (playData c) (st, 0);
          threshold = significanceThreshold (playData c);
          significantPlays = significantPlaysOf (playData c) threshold (snd r)
      in (fst r)\<lparr> anySignificant := anySignificant (fst r) OR significantPlays,
                  allSignificant := allSignificant (fst r) AND significantPlays \<rparr>)"

text \<open>
  \<open>totalPlayCount\<close> is declared without an initial value and then added to; \<open>garbage\<close>
  is whatever the variable holds when the scan starts.
\<close>

definition scanChildren :: "16 word \<Rightarrow> DecisionNode list \<Rightarrow> PruneScan" where
  "scanChildren garbage cs =
     fold scanChild cs
       \<lparr> totalPlayCount = garbage, singlePlays = 0, multiPlays = 0,
         anySignificant = 0, allSignificant = NOT 0 \<rparr>"

definition uniformSignificance :: "PruneScan \<Rightarrow> bool" where
  "uniformSignificance st = (anySignificant st = allSignificant st)"

text \<open>
  The play types with only single plays, and the play types significant in some
  children but not in all of them, as the third test computes them.
\<close>

definition onlySinglePlays :: "PruneScan \<Rightarrow> 11 word" where
  "onlySinglePlays st = singlePlays st AND NOT (multiPlays st)"

definition someNotAllSignificant :: "PruneScan \<Rightarrow> 11 word" where
  "someNotAllSignificant st = anySignificant st AND NOT (allSignificant st)"


text \<open>\<open>anySignificant.size()\<close> is the number of bits of the bit set, eleven.\<close>

definition isolatedRareType :: "PruneScan \<Rightarrow> bool" where
  "isolatedRareType st =
     (onlySinglePlays st AND someNotAllSignificant st = someNotAllSignificant st
      \<and> 11 \<le> unat (totalPlayCount st) div 2)"

definition shouldPrune :: "16 word \<Rightarrow> DecisionNode list \<Rightarrow> bool" where
  "shouldPrune garbage cs =
     (if overfitSingle cs then True
      else let st = scanChildren garbage cs
           in if uniformSignificance st then True else isolatedRareType st)"

subsection \<open>Pruning: the pass over the tree\<close>

fun mergeChildren :: "DetailedPlayData \<Rightarrow> DecisionNode list \<Rightarrow> error + DetailedPlayData" where
  "mergeChildren pd [] = Inr pd"
| "mergeChildren pd (c # cs) = bindE (mergeData pd (playData c)) (\<lambda>pd'. mergeChildren pd' cs)"

text \<open>
  Every invocation of \<open>pruneTree\<close> that reaches the scan reads its own uninitialised
  \<open>totalPlayCount\<close>; \<open>garbage\<close> gives that value for the node at each position of the
  tree (the position is the list of child numbers from the root).
\<close>

fun pruneTree :: "(nat list \<Rightarrow> 16 word) \<Rightarrow> nat list \<Rightarrow> DecisionNode \<Rightarrow> error + DecisionNode"
  and pruneChildren ::
    "(nat list \<Rightarrow> 16 word) \<Rightarrow> nat list \<Rightarrow> nat \<Rightarrow> DecisionNode list \<Rightarrow> error + DecisionNode list"
  where
  "pruneTree garbage pos (DecisionNode cs dv mapping pd) =
     (if cs = [] then Inr (DecisionNode cs dv mapping pd)
      else bindE (pruneChildren garbage pos 0 cs) (\<lambda>cs'.
        if \<not> list_all isLeaf cs' then Inr (DecisionNode cs' dv mapping pd)
        else if shouldPrune (garbage pos) cs'
        then bindE (mergeChildren (playData (hd cs')) (tl cs')) (\<lambda>pd'.
               Inr (DecisionNode [] dv mapping pd'))
        else Inr (DecisionNode cs' dv mapping pd)))"
| "pruneChildren garbage pos i [] = Inr []"
| "pruneChildren garbage pos i (c # cs) =
     bindE (if isLeaf c then Inr c else pruneTree garbage (pos @ [i]) c) (\<lambda>c'.
     bindE (pruneChildren garbage pos (Suc i) cs) (\<lambda>cs'. Inr (c' # cs')))"

subsection \<open>Construction\<close>

text \<open>
  \<open>PlayCountMap\<close> is a \<open>std::map\<close> from play type to an \<open>unsigned short\<close> count: its
  entries in key order. \<open>indexesToPlayCounts\<close> bumps the count of a play type that is
  present and inserts a count of one otherwise.
\<close>

type_synonym PlayCountMap = "(PlayType \<times> int) list"

fun countPlayType :: "PlayType \<Rightarrow> PlayCountMap \<Rightarrow> PlayCountMap" where
  "countPlayType t [] = [(t, 1)]"
| "countPlayType t ((k, n) # m) =
     (if k = t then (k, toUShort (n + 1)) # m
      else if playTypeIdx t < playTypeIdx k then (t, 1) # (k, n) # m
      else (k, n) # countPlayType t m)"

definition indexesToPlayCounts :: "PlayIndexSet \<Rightarrow> PlayCountMap" where
  "indexesToPlayCounts s =
     (case characteristicList (getIndexesAvailable s) of
        [] \<Rightarrow> []
      | indexType # _ \<Rightarrow>
          fold (\<lambda>p m. countPlayType (playType p) m) (concat (getIndex s indexType)) [])"

text \<open>
  The information gain ratio is computed in floating point (\<open>double\<close>, \<open>log2\<close>). The
  construction is modelled for an arbitrary function \<open>ratio\<close> in its place, which gets
  the four arguments of \<open>getInfoGainRatio\<close>: the play counts of the node, the play total,
  the play counts per populated category and the totals per populated category.
\<close>

type_synonym RatioFunction = "PlayCountMap \<Rightarrow> int \<Rightarrow> int list list \<Rightarrow> int list \<Rightarrow> real"

definition countsPerType :: "PlayIndex \<Rightarrow> int list" where
  "countsPerType ps =
     fold (\<lambda>p counts. counts[playTypeIdx (playType p) :=
                           toShort (counts ! playTypeIdx (playType p) + 1)])
       ps (replicate getPlayTypeCount 0)"

definition candidateRatio ::
  "RatioFunction \<Rightarrow> PlayCountMap \<Rightarrow> PlayIndexSet \<Rightarrow> PlayCharacteristic \<Rightarrow> real" where
  "candidateRatio ratio playTypeCounts s testIndex =
     (let populated = filter (\<lambda>cat. cat \<noteq> []) (getIndex s testIndex);
          splitPlayCounts = map countsPerType populated;
          splitPlayTotals = map (\<lambda>cat. toShort (int (length cat))) populated;
          playTotals = fold (\<lambda>cat acc. toShort (acc + int (length cat))) populated 0
      in if length splitPlayTotals \<le> 1 then 0
         else ratio playTypeCounts playTotals splitPlayCounts splitPlayTotals)"

text \<open>
  The loop over a copy of the available characteristics. The state is the index set
  (redundant indexes are dropped on the way), \<open>_decisionValue\<close> and \<open>maxInfoRatio\<close>.
\<close>

fun evaluateCandidates ::
  "RatioFunction \<Rightarrow> PlayCountMap \<Rightarrow> PlayCharacteristic list
     \<Rightarrow> PlayIndexSet \<times> PlayCharacteristic option \<times> real
     \<Rightarrow> PlayIndexSet \<times> PlayCharacteristic option \<times> real" where
  "evaluateCandidates ratio playTypeCounts [] st = st"
| "evaluateCandidates ratio playTypeCounts (testIndex # rest) (s, dv, maxInfoRatio) =
     (let infoRatio = candidateRatio ratio playTypeCounts s testIndex
      in if infoRatio < MinInformationGain
         then evaluateCandidates ratio playTypeCounts rest (dropIndex s testIndex, dv, maxInfoRatio)
         else evaluateCandidates ratio playTypeCounts rest (s, Some testIndex, infoRatio))"

text \<open>
  The candidates are only evaluated when the node has more than one play type; otherwise
  nothing is recorded and \<open>maxInfoRatio\<close> stays zero.
\<close>

definition selectSplit ::
  "RatioFunction \<Rightarrow> PlayCountMap \<Rightarrow> PlayIndexSet
     \<Rightarrow> PlayIndexSet \<times> PlayCharacteristic option \<times> real" where
  "selectSplit ratio playTypeCounts s =
     (if length playTypeCounts > 1
      then evaluateCandidates ratio playTypeCounts
             (characteristicList (getIndexesAvailable s)) (s, None, 0)
      else (s, None, 0))"

text \<open>The mapping from category to child: populated categories are numbered in order.\<close>

fun buildMapping :: "CategoryIndex \<Rightarrow> int \<Rightarrow> int list" where
  "buildMapping [] valueCount = []"
| "buildMapping (cat # rest) valueCount =
     (if cat \<noteq> [] then valueCount # buildMapping rest (toShort (valueCount + 1))
      else -1 # buildMapping rest valueCount)"

text \<open>
  The constructor builds the whole subtree. \<open>fuel\<close> bounds the depth of the recursion;
  \<open>None\<close> means the bound was too small. Every exception of the source is an \<open>Inl\<close>.
\<close>

fun buildNode ::
    "RatioFunction \<Rightarrow> nat \<Rightarrow> PlayIndexSet \<Rightarrow> OverallSummaryData \<Rightarrow> (error + DecisionNode) option"
  and buildChildren ::
    "RatioFunction \<Rightarrow> nat \<Rightarrow> PlayIndexSet list \<Rightarrow> OverallSummaryData
       \<Rightarrow> (error + DecisionNode list) option"
  where
  "buildNode ratio 0 s summaryData = None"
| "buildNode ratio (Suc fuel) s summaryData =
     (let playTypeCounts = indexesToPlayCounts s
      in if playTypeCounts = []
         then Some (Inl (BaseException ''DecisionNode create failed, passed play store empty''))
         else
           let st = selectSplit ratio playTypeCounts s;
               s1 = fst st; dv = fst (snd st); maxInfoRatio = snd (snd st)
           in if maxInfoRatio \<ge> MinInformationGain
              then (case dv of
                      None \<Rightarrow> Some (Inl UndefinedBehaviour)
                    | Some c \<Rightarrow>
                        (let mapping = buildMapping (getIndex s1 c) 0
                         in case splitIndexByCharacteristic c s1 of
                              Inl e \<Rightarrow> Some (Inl e)
                            | Inr (s2, newIndexes) \<Rightarrow>
                                if newIndexes = []
                                then Some (Inl (BaseException
                                  ''DecisionNode create failed, split of play store data failed''))
                                else (case buildChildren ratio fuel (s2 # newIndexes) summaryData of
                                        None \<Rightarrow> None
                                      | Some (Inl e) \<Rightarrow> Some (Inl e)
                                      | Some (Inr children) \<Rightarrow>
                                          Some (Inr (DecisionNode children dv mapping [])))))
              else (case buildDetailedData s1 summaryData of
                      Inl e \<Rightarrow> Some (Inl e)
                    | Inr pd \<Rightarrow> Some (Inr (DecisionNode [] dv [] pd))))"
| "buildChildren ratio fuel [] summaryData = Some (Inr [])"
| "buildChildren ratio fuel (s # rest) summaryData =
     (case buildNode ratio fuel s summaryData of
        None \<Rightarrow> None
      | Some (Inl e) \<Rightarrow> Some (Inl e)
      | Some (Inr child) \<Rightarrow>
          (case buildChildren ratio fuel rest summaryData of
             None \<Rightarrow> None
           | Some (Inl e) \<Rightarrow> Some (Inl e)
           | Some (Inr children) \<Rightarrow> Some (Inr (child # children))))"

text \<open>Every node has no child or at least two children.\<close>

fun wellFormed :: "DecisionNode \<Rightarrow> bool" where
  "wellFormed (DecisionNode cs dv mapping pd) =
     ((cs = [] \<or> length cs \<ge> 2) \<and> list_all wellFormed cs)"

section \<open>dataStore: from plays to indexes\<close>

text \<open>
  \<open>buildIndexes\<close> pushes every play of the store onto the category of its own value
  in each of the five indexes (the loop of \<open>splitIndexHelper\<close>, once per
  characteristic), installs them with \<open>setIndexes\<close> and derives the overall summary.
  An empty store is left as it is.
\<close>

definition buildIndexes :: "SinglePlay list \<Rightarrow> error + (PlayIndexSet \<times> OverallSummaryData)" where
  "buildIndexes plays =
     (if plays = [] then Inr (emptyPlayIndexSet, [])
      else
        bindE (splitIndexHelper down_number plays) (\<lambda>dIdx.
        bindE (splitIndexHelper distance_needed plays) (\<lambda>dnIdx.
        bindE (splitIndexHelper field_location plays) (\<lambda>flIdx.
        bindE (splitIndexHelper time_remaining plays) (\<lambda>trIdx.
        bindE (splitIndexHelper score_differential plays) (\<lambda>sdIdx.
        bindE (setIndexes dIdx dnIdx flIdx trIdx sdIdx) (\<lambda>s.
          Inr (s, buildSummaryData s))))))))"

section \<open>What the pruning scan computes, child by child\<close>





section \<open>Properties of a leaf\<close>






section \<open>Properties of an index set\<close>



section \<open>Example data\<close>

text \<open>
  Plays on the middle of the field, outside the two minute warning. The first argument
  is the reference id, then play type, down, distance category, score category, yards
  gained and the turnover flag.
\<close>

definition examplePlay ::
  "nat \<Rightarrow> PlayType \<Rightarrow> nat \<Rightarrow> DistanceNeeded \<Rightarrow> ScoreDifferential \<Rightarrow> int \<Rightarrow> bool \<Rightarrow> SinglePlay" where
  "examplePlay i t d dn sc gained turned =
     \<lparr> refId = i, playType = t, down = d, distanceNeeded = dn, fieldLocation = middle,
       timeRemaining = outside_two_minutes, scoreDifferential = sc,
       distanceGained = gained, turnedOver = turned \<rparr>"

text \<open>
  Four plays on first down with the score tied: two runs with ten to four yards to go,
  two punts with four to one yard to go. The distance separates the play types
  perfectly, so the information gain ratio of the distance is exactly 1.
\<close>

definition toyPlay1 :: SinglePlay where
  "toyPlay1 = examplePlay 0 run_left 1 ten_to_four even_score 3 False"
definition toyPlay2 :: SinglePlay where
  "toyPlay2 = examplePlay 1 run_left 1 ten_to_four even_score 5 False"
definition toyPlay3 :: SinglePlay where
  "toyPlay3 = examplePlay 2 punt 1 four_to_one even_score 40 False"
definition toyPlay4 :: SinglePlay where
  "toyPlay4 = examplePlay 3 punt 1 four_to_one even_score 35 True"

definition toyIndexes :: PlayIndexSet where
  "toyIndexes =
     \<lparr> indexes = {down_number, distance_needed, field_location, time_remaining,
                  score_differential},
       downIndex = [[], [toyPlay1, toyPlay2, toyPlay3, toyPlay4], [], [], []],
       distanceNeededIndex = [[], [], [toyPlay1, toyPlay2], [toyPlay3, toyPlay4], []],
       fieldLocationIndex = [[], [toyPlay1, toyPlay2, toyPlay3, toyPlay4], []],
       timeRemainingIndex = [[toyPlay1, toyPlay2, toyPlay3, toyPlay4], []],
       scoreDifferentialIndex =
         [[], [], [], [toyPlay1, toyPlay2, toyPlay3, toyPlay4], [], [], []] \<rparr>"

definition toySummary :: OverallSummaryData where
  "toySummary = buildSummaryData toyIndexes"

text \<open>The two halves of \<open>toyIndexes\<close> after a split by distance.\<close>

definition toyRuns :: PlayIndexSet where
  "toyRuns =
     \<lparr> indexes = {down_number, field_location, time_remaining, score_differential},
       downIndex = [[], [toyPlay1, toyPlay2], [], [], []],
       distanceNeededIndex = [],
       fieldLocationIndex = [[], [toyPlay1, toyPlay2], []],
       timeRemainingIndex = [[toyPlay1, toyPlay2], []],
       scoreDifferentialIndex = [[], [], [], [toyPlay1, toyPlay2], [], [], []] \<rparr>"

definition toyPunts :: PlayIndexSet where
  "toyPunts =
     \<lparr> indexes = {down_number, field_location, time_remaining, score_differential},
       downIndex = [[], [toyPlay3, toyPlay4], [], [], []],
       distanceNeededIndex = [],
       fieldLocationIndex = [[], [toyPlay3, toyPlay4], []],
       timeRemainingIndex = [[toyPlay3, toyPlay4], []],
       scoreDifferentialIndex = [[], [], [], [toyPlay3, toyPlay4], [], [], []] \<rparr>"

text \<open>\<open>toyIndexes\<close> after the down, which has one populated category, was dropped.\<close>

definition toyWithoutDown :: PlayIndexSet where
  "toyWithoutDown =
     \<lparr> indexes = {distance_needed, field_location, time_remaining, score_differential},
       downIndex = [],
       distanceNeededIndex = [[], [], [toyPlay1, toyPlay2], [toyPlay3, toyPlay4], []],
       fieldLocationIndex = [[], [toyPlay1, toyPlay2, toyPlay3, toyPlay4], []],
       timeRemainingIndex = [[toyPlay1, toyPlay2, toyPlay3, toyPlay4], []],
       scoreDifferentialIndex =
         [[], [], [], [toyPlay1, toyPlay2, toyPlay3, toyPlay4], [], [], []] \<rparr>"

text \<open>Index sets that track a single characteristic.\<close>

definition soleDown :: PlayIndexSet where
  "soleDown =
     \<lparr> indexes = {down_number},
       downIndex = [[], [toyPlay1, toyPlay2], [], [], []],
       distanceNeededIndex = [], fieldLocationIndex = [], timeRemainingIndex = [],
       scoreDifferentialIndex = [] \<rparr>"

definition soleDistance :: PlayIndexSet where
  "soleDistance =
     \<lparr> indexes = {distance_needed},
       downIndex = [],
       distanceNeededIndex = [[], [], [toyPlay1, toyPlay2], [toyPlay3, toyPlay4], []],
       fieldLocationIndex = [], timeRemainingIndex = [], scoreDifferentialIndex = [] \<rparr>"

definition soleDistanceRuns :: PlayIndexSet where
  "soleDistanceRuns =
     \<lparr> indexes = {distance_needed},
       downIndex = [],
       distanceNeededIndex = [[], [], [toyPlay1, toyPlay2], [], []],
       fieldLocationIndex = [], timeRemainingIndex = [], scoreDifferentialIndex = [] \<rparr>"

definition soleDistancePunts :: PlayIndexSet where
  "soleDistancePunts =
     \<lparr> indexes = {distance_needed},
       downIndex = [],
       distanceNeededIndex = [[], [], [], [toyPlay3, toyPlay4], []],
       fieldLocationIndex = [], timeRemainingIndex = [], scoreDifferentialIndex = [] \<rparr>"

text \<open>Short forms for writing down summaries.\<close>

definition playStats :: "int \<Rightarrow> int \<Rightarrow> int \<Rightarrow> int \<Rightarrow> OverallPlaySummary" where
  "playStats average variance turnoverShare n =
     \<lparr> averageDistance = average, distanceVariance = variance,
       turnoverPercentage = turnoverShare, totalCount = n \<rparr>"

definition playDetail ::
  "int list \<Rightarrow> int \<Rightarrow> OverallPlaySummary \<Rightarrow> OverallPlaySummary \<Rightarrow> int \<Rightarrow> int
     \<Rightarrow> DetailedPlaySummary" where
  "playDetail distances turnovers grp overall shareOfNode shareOfType =
     \<lparr> playDistances = distances, turnoverCount = turnovers, groupStats = grp,
       overallStats = overall, percentOfConditionPlays = shareOfNode,
       percentOfTypePlays = shareOfType \<rparr>"

text \<open>Ratio functions that ignore their arguments.\<close>

definition constRatio :: "real \<Rightarrow> RatioFunction" where
  "constRatio r playTypeCounts playTotals splitPlayCounts splitPlayTotals = r"

definition unitRatio :: RatioFunction where
  "unitRatio = constRatio 1"

text \<open>The tree of the toy plays: a decision on the distance over two leaves.\<close>

definition toyRunsLeaf :: DecisionNode where
  "toyRunsLeaf =
     DecisionNode [] None []
       [(run_left, playDetail [3, 5] 0 (playStats 4 1 0 2) (playStats 4 1 0 2) 1000 1000)]"

definition toyPuntsLeaf :: DecisionNode where
  "toyPuntsLeaf =
     DecisionNode [] None []
       [(punt, playDetail [35, 40] 1 (playStats 37 2 500 2) (playStats 37 2 500 2) 1000 1000)]"

definition toyTree :: DecisionNode where
  "toyTree =
     DecisionNode [toyRunsLeaf, toyPuntsLeaf] (Some distance_needed) [-1, -1, 0, 1, -1] []"

text \<open>
  Three plays: a run and a punt on first down, a run on second down. The down splits
  them with an information gain ratio of about 0.27.
\<close>

definition threePlays :: "SinglePlay list" where
  "threePlays =
     [examplePlay 0 run_left 1 ten_to_four even_score 3 False,
      examplePlay 1 punt 1 ten_to_four even_score 40 False,
      examplePlay 2 run_left 2 ten_to_four even_score 5 True]"

definition threeIndexes :: PlayIndexSet where
  "threeIndexes =
     \<lparr> indexes = {down_number, distance_needed, field_location, time_remaining,
                  score_differential},
       downIndex = [[], [threePlays ! 0, threePlays ! 1], [threePlays ! 2], [], []],
       distanceNeededIndex = [[], [], threePlays, [], []],
       fieldLocationIndex = [[], threePlays, []],
       timeRemainingIndex = [threePlays, []],
       scoreDifferentialIndex = [[], [], [], threePlays, [], [], []] \<rparr>"

definition threeSummary :: OverallSummaryData where
  "threeSummary = playStats 4 1 500 2 # replicate 9 (playStats 0 0 0 0) @ [playStats 40 0 0 1]"

text \<open>The summaries of the two leaves, and what merging them yields.\<close>

definition threeFirstDown :: DetailedPlayData where
  "threeFirstDown =
     [(run_left, playDetail [3] 0 (playStats 3 0 0 1) (playStats 4 1 500 2) 500 500),
      (punt, playDetail [40] 0 (playStats 40 0 0 1) (playStats 40 0 0 1) 500 1000)]"

definition threeSecondDown :: DetailedPlayData where
  "threeSecondDown =
     [(run_left, playDetail [5] 1 (playStats 5 0 1000 1) (playStats 4 1 500 2) 1000 500)]"

definition threeMergedData :: DetailedPlayData where
  "threeMergedData =
     [(run_left, playDetail [3, 5] 1 (playStats 4 1 500 2) (playStats 4 1 500 2) 666 1000),
      (punt, playDetail [40] 0 (playStats 40 0 0 1) (playStats 40 0 0 1) 500 1000)]"

definition threeTree :: DecisionNode where
  "threeTree =
     DecisionNode [DecisionNode [] None [] threeFirstDown, DecisionNode [] None [] threeSecondDown]
       (Some down_number) [-1, 0, 1, -1, -1] []"

definition threeMerged :: DecisionNode where
  "threeMerged = DecisionNode [] (Some down_number) [-1, 0, 1, -1, -1] threeMergedData"

text \<open>
  Five plays: two runs on first down; two runs and a punt on second down. The down
  splits them with an information gain ratio of about 0.18.
\<close>

definition fivePlays :: "SinglePlay list" where
  "fivePlays =
     [examplePlay 0 run_left 1 ten_to_four even_score 3 False,
      examplePlay 1 run_left 1 ten_to_four even_score 4 False,
      examplePlay 2 run_left 2 ten_to_four even_score 2 False,
      examplePlay 3 run_left 2 ten_to_four even_score 6 False,
      examplePlay 4 punt 2 ten_to_four even_score 40 False]"

definition fiveIndexes :: PlayIndexSet where
  "fiveIndexes =
     \<lparr> indexes = {down_number, distance_needed, field_location, time_remaining,
                  score_differential},
       downIndex = [[], take 2 fivePlays, drop 2 fivePlays, [], []],
       distanceNeededIndex = [[], [], fivePlays, [], []],
       fieldLocationIndex = [[], fivePlays, []],
       timeRemainingIndex = [fivePlays, []],
       scoreDifferentialIndex = [[], [], [], fivePlays, [], [], []] \<rparr>"

definition fiveSummary :: OverallSummaryData where
  "fiveSummary = playStats 3 1 0 4 # replicate 9 (playStats 0 0 0 0) @ [playStats 40 0 0 1]"

definition fiveTree :: DecisionNode where
  "fiveTree =
     DecisionNode
       [DecisionNode [] None []
          [(run_left, playDetail [3, 4] 0 (playStats 3 0 0 2) (playStats 3 1 0 4) 1000 500)],
        DecisionNode [] None []
          [(run_left, playDetail [2, 6] 0 (playStats 4 2 0 2) (playStats 3 1 0 4) 666 500),
           (punt, playDetail [40] 0 (playStats 40 0 0 1) (playStats 40 0 0 1) 333 1000)]]
       (Some down_number) [-1, 0, 1, -1, -1] []"

definition fiveMerged :: DecisionNode where
  "fiveMerged =
     DecisionNode [] (Some down_number) [-1, 0, 1, -1, -1]
       [(run_left, playDetail [2, 3, 4, 6] 0 (playStats 3 1 0 4) (playStats 3 1 0 4) 800 1000),
        (punt, playDetail [40] 0 (playStats 40 0 0 1) (playStats 40 0 0 1) 200 1000)]"

text \<open>
  Twenty-four plays: twenty runs and a field goal attempt on first down; two runs and a
  punt on second down. The down splits them with an information gain ratio of about 0.26.
\<close>

definition manyPlays :: "SinglePlay list" where
  "manyPlays =
     map (\<lambda>i. examplePlay i run_left 1 ten_to_four even_score 3 False) [0 ..< 20]
     @ [examplePlay 20 field_goal 1 ten_to_four even_score 0 False,
        examplePlay 21 run_left 2 ten_to_four even_score 3 False,
        examplePlay 22 run_left 2 ten_to_four even_score 3 False,
        examplePlay 23 punt 2 ten_to_four even_score 40 False]"

definition manyIndexes :: PlayIndexSet where
  "manyIndexes =
     \<lparr> indexes = {down_number, distance_needed, field_location, time_remaining,
                  score_differential},
       downIndex = [[], take 21 manyPlays, drop 21 manyPlays, [], []],
       distanceNeededIndex = [[], [], manyPlays, [], []],
       fieldLocationIndex = [[], manyPlays, []],
       timeRemainingIndex = [manyPlays, []],
       scoreDifferentialIndex = [[], [], [], manyPlays, [], [], []] \<rparr>"

definition manySummary :: OverallSummaryData where
  "manySummary =
     playStats 3 0 0 22 # replicate 8 (playStats 0 0 0 0) @ [playStats 0 0 0 1, playStats 40 0 0 1]"

definition manyChildren :: "DecisionNode list" where
  "manyChildren =
     [DecisionNode [] None []
        [(run_left, playDetail (replicate 20 3) 0 (playStats 3 0 0 20) (playStats 3 0 0 22) 952 909),
         (field_goal, playDetail [0] 0 (playStats 0 0 0 1) (playStats 0 0 0 1) 47 1000)],
      DecisionNode [] None []
        [(run_left, playDetail [3, 3] 0 (playStats 3 0 0 2) (playStats 3 0 0 22) 666 90),
         (punt, playDetail [40] 0 (playStats 40 0 0 1) (playStats 40 0 0 1) 333 1000)]]"

definition manyTree :: DecisionNode where
  "manyTree = DecisionNode manyChildren (Some down_number) [-1, 0, 1, -1, -1] []"



text \<open>
  Four plays that both the distance and the score split: the distance separates runs
  from punts perfectly (ratio 1), the score sets one punt apart (ratio about 0.38).
\<close>

definition twoWayPlays :: "SinglePlay list" where
  "twoWayPlays =
     [examplePlay 0 run_left 1 ten_to_four even_score 3 False,
      examplePlay 1 run_left 1 ten_to_four even_score 5 False,
      examplePlay 2 punt 1 four_to_one even_score 40 False,
      examplePlay 3 punt 1 four_to_one up_seven_less 35 False]"

definition twoWayIndexes :: PlayIndexSet where
  "twoWayIndexes =
     \<lparr> indexes = {down_number, distance_needed, field_location, time_remaining,
                  score_differential},
       downIndex = [[], twoWayPlays, [], [], []],
       distanceNeededIndex = [[], [], take 2 twoWayPlays, drop 2 twoWayPlays, []],
       fieldLocationIndex = [[], twoWayPlays, []],
       timeRemainingIndex = [twoWayPlays, []],
       scoreDifferentialIndex = [[], [], [], take 3 twoWayPlays, drop 3 twoWayPlays, [], []] \<rparr>"

definition twoWaySummary :: OverallSummaryData where
  "twoWaySummary = playStats 4 1 0 2 # replicate 9 (playStats 0 0 0 0) @ [playStats 37 2 0 2]"



text \<open>
  An index set of 32768 runs, one more than a \<open>short\<close> can count, all in the same
  situation, with the overall summary the program derives from them.
\<close>

definition hugePlays :: "SinglePlay list" where
  "hugePlays = map (\<lambda>i. examplePlay i run_left 1 ten_to_four even_score 3 False) [0 ..< 32768]"

definition hugeIndexes :: PlayIndexSet where
  "hugeIndexes =
     \<lparr> indexes = {down_number, distance_needed, field_location, time_remaining,
                  score_differential},
       downIndex = [[], hugePlays, [], [], []],
       distanceNeededIndex = [[], [], hugePlays, [], []],
       fieldLocationIndex = [[], hugePlays, []],
       timeRemainingIndex = [hugePlays, []],
       scoreDifferentialIndex = [[], [], [], hugePlays, [], [], []] \<rparr>"

definition hugeSummary :: OverallSummaryData where
  "hugeSummary = buildSummaryData hugeIndexes"

definition hugeLeaf :: DecisionNode where
  "hugeLeaf =
     DecisionNode [] None []
       [(run_left, playDetail (replicate 32768 3) 0 (playStats 0 0 0 (-32768))
                     (playStats 0 0 0 (-32768)) 1000 1000)]"

section \<open>Lemmas: machine integers and exceptions\<close>

lemma toShort_toShort_add: "toShort (toShort a + b) = toShort (a + b)"
proof -
  have "toShort a + b + 32768 = (a + 32768) mod 65536 + b"
    by (simp add: toShort_def)
  then have "(toShort a + b + 32768) mod 65536 = ((a + 32768) mod 65536 + b) mod 65536"
    by (rule arg_cong)
  also have "\<dots> = (a + 32768 + b) mod 65536"
    by (rule mod_add_left_eq)
  also have "a + 32768 + b = a + b + 32768"
    by linarith
  finally have X: "(toShort a + b + 32768) mod 65536 = (a + b + 32768) mod 65536" .
  show ?thesis
    unfolding toShort_def[of "toShort a + b"] toShort_def[of "a + b"]
    by (simp only: X)
qed


lemma bindE_Inr_iff: "bindE m f = Inr y \<longleftrightarrow> (\<exists>x. m = Inr x \<and> f x = Inr y)"
  by (cases m) (simp_all add: bindE_def)

section \<open>Lemmas: splitting an index\<close>







lemma toShort_0: "toShort 0 = 0"
  by (simp add: toShort_def)

















lemma getIndex_clearIndex: "getIndex (clearIndex s c) b = (if b = c then [] else getIndex s b)"
  by (cases c; cases b) simp_all

lemma indexes_clearIndex: "indexes (clearIndex s c) = indexes s"
  by (cases c) simp_all

lemma getIndex_indexes_update: "getIndex (s\<lparr>indexes := S\<rparr>) b = getIndex s b"
  by (cases b) simp_all

lemma getIndex_dropIndex:
  "getIndex (dropIndex s c) b =
     (if card (indexes s) = 1 then getIndex s b else if b = c then [] else getIndex s b)"
  by (simp add: dropIndex_def getIndex_indexes_update getIndex_clearIndex)

lemma indexes_dropIndex:
  "indexes (dropIndex s c) = (if card (indexes s) = 1 then indexes s else indexes s - {c})"
  by (simp add: dropIndex_def indexes_clearIndex)

lemma split_success:
  assumes ok: "splitIndexByCharacteristic c s0 = Inr (s', sibs)"
    and many: "\<not> countNonEmpty (getIndex s0 c) \<le> 1"
  shows "\<exists>news. (\<forall>b. splitIndex c (getIndex (dropIndex s0 c) b) (countNonEmpty (getIndex s0 c) - 1)
                        = Inr (getIndex s' b, news b))
           \<and> indexes s' = indexes (dropIndex s0 c)
           \<and> length sibs = countNonEmpty (getIndex s0 c) - 1
           \<and> (\<forall>i < length sibs. indexes (sibs ! i) = indexes (dropIndex s0 c)
                   \<and> (\<forall>b. getIndex (sibs ! i) b = news b ! i))"
proof -
  let ?s = "dropIndex s0 c"
  let ?n = "countNonEmpty (getIndex s0 c) - 1"
  from ok many obtain d ds dn dns fl fls tr trs sd sds where
    1: "splitIndex c (downIndex ?s) ?n = Inr (d, ds)" and
    2: "splitIndex c (distanceNeededIndex ?s) ?n = Inr (dn, dns)" and
    3: "splitIndex c (fieldLocationIndex ?s) ?n = Inr (fl, fls)" and
    4: "splitIndex c (timeRemainingIndex ?s) ?n = Inr (tr, trs)" and
    5: "splitIndex c (scoreDifferentialIndex ?s) ?n = Inr (sd, sds)" and
    s': "s' = ?s\<lparr> downIndex := d, distanceNeededIndex := dn, fieldLocationIndex := fl,
                     timeRemainingIndex := tr, scoreDifferentialIndex := sd \<rparr>" and
    sibs: "sibs = map (\<lambda>i. \<lparr> indexes = indexes ?s, downIndex = ds ! i,
                              distanceNeededIndex = dns ! i, fieldLocationIndex = fls ! i,
                              timeRemainingIndex = trs ! i, scoreDifferentialIndex = sds ! i \<rparr>)
                      [0 ..< ?n]"
    by (auto simp: splitIndexByCharacteristic_def Let_def bindE_Inr_iff)
  let ?news = "\<lambda>b. case b of down_number \<Rightarrow> ds | distance_needed \<Rightarrow> dns
       | field_location \<Rightarrow> fls | time_remaining \<Rightarrow> trs | score_differential \<Rightarrow> sds"
  have a: "\<forall>b. splitIndex c (getIndex ?s b) ?n = Inr (getIndex s' b, ?news b)"
  proof
    fix b show "splitIndex c (getIndex ?s b) ?n = Inr (getIndex s' b, ?news b)"
      using 1 2 3 4 5 by (cases b) (simp_all add: s')
  qed
  have b: "indexes s' = indexes ?s" by (simp add: s')
  have c: "length sibs = ?n" by (simp add: sibs)
  have d: "\<forall>i < length sibs. indexes (sibs ! i) = indexes ?s \<and> (\<forall>b. getIndex (sibs ! i) b = ?news b ! i)"
  proof (intro allI impI)
    fix i assume "i < length sibs"
    then have i: "i < ?n" by (simp add: sibs)
    have "\<forall>b. getIndex (sibs ! i) b = ?news b ! i"
    proof
      fix b show "getIndex (sibs ! i) b = ?news b ! i"
        using i by (cases b) (simp_all add: sibs)
    qed
    moreover have "indexes (sibs ! i) = indexes ?s" using i by (simp add: sibs)
    ultimately show "indexes (sibs ! i) = indexes ?s \<and> (\<forall>b. getIndex (sibs ! i) b = ?news b ! i)"
      by simp
  qed
  from a b c d show ?thesis by blast
qed

section \<open>The examples, computed\<close>

lemma toy_buildIndexes:
  "buildIndexes [toyPlay1, toyPlay2, toyPlay3, toyPlay4] = Inr (toyIndexes, toySummary)"
  by code_simp

lemma toy_build: "buildNode unitRatio 2 toyIndexes toySummary = Some (Inr toyTree)"
  by code_simp

lemma three_buildIndexes: "buildIndexes threePlays = Inr (threeIndexes, threeSummary)"
  by code_simp

lemma three_build:
  "buildNode (constRatio (27 / 100)) 2 threeIndexes threeSummary = Some (Inr threeTree)"
  by code_simp

lemma three_prune: "pruneTree (\<lambda>pos. 0) [] threeTree = Inr threeMerged"
  by code_simp

lemma five_buildIndexes: "buildIndexes fivePlays = Inr (fiveIndexes, fiveSummary)"
  by code_simp

lemma five_build:
  "buildNode (constRatio (18 / 100)) 2 fiveIndexes fiveSummary = Some (Inr fiveTree)"
  by code_simp

lemma many_buildIndexes: "buildIndexes manyPlays = Inr (manyIndexes, manySummary)"
  by code_simp

lemma many_build:
  "buildNode (constRatio (26 / 100)) 2 manyIndexes manySummary = Some (Inr manyTree)"
  by code_simp


lemma twoWay_buildIndexes: "buildIndexes twoWayPlays = Inr (twoWayIndexes, twoWaySummary)"
  by code_simp


section \<open>Claims about splitting an index set\<close>

lemma toy_split_by_distance:
  "splitIndexByCharacteristic distance_needed toyIndexes = Inr (toyRuns, [toyPunts])"
  by code_simp

lemma toy_split_by_down:
  "splitIndexByCharacteristic down_number toyIndexes = Inr (toyWithoutDown, [])"
  by code_simp



text \<open>
  C5, as the code has it. A call on a characteristic with at most one populated category
  returns no siblings. When the set tracks exactly one characteristic the call changes
  nothing at all (\<open>dropIndex\<close> leaves the last index alone); otherwise the only change is
  that the split characteristic is dropped: it leaves the tracked set, its partition is
  cleared, and every other partition is as before.
\<close>

theorem splitBy_single_category_drops_only:
  assumes "countNonEmpty (getIndex s c) \<le> 1"
  shows "\<exists>s'. splitIndexByCharacteristic c s = Inr (s', [])
           \<and> (if card (indexes s) = 1 then s' = s
               else indexes s' = indexes s - {c} \<and> getIndex s' c = []
                    \<and> (\<forall>b. b \<noteq> c \<longrightarrow> getIndex s' b = getIndex s b))"
proof -
  from assms have "splitIndexByCharacteristic c s = Inr (dropIndex s c, [])"
    by (simp add: splitIndexByCharacteristic_def Let_def)
  moreover have "card (indexes s) = 1 \<Longrightarrow> dropIndex s c = s"
    by (simp add: dropIndex_def)
  moreover have "card (indexes s) \<noteq> 1 \<Longrightarrow>
      indexes (dropIndex s c) = indexes s - {c} \<and> getIndex (dropIndex s c) c = []
      \<and> (\<forall>b. b \<noteq> c \<longrightarrow> getIndex (dropIndex s c) b = getIndex s b)"
    by (simp add: indexes_dropIndex getIndex_dropIndex)
  ultimately show ?thesis by auto
qed

theorem splitBy_single_category_drops_only_witness:
  "countNonEmpty (getIndex toyIndexes down_number) \<le> 1
   \<and> card (indexes toyIndexes) \<noteq> 1
   \<and> splitIndexByCharacteristic down_number toyIndexes = Inr (toyWithoutDown, [])
   \<and> indexes toyWithoutDown = indexes toyIndexes - {down_number}
   \<and> getIndex toyWithoutDown down_number = []
   \<and> getIndex toyWithoutDown distance_needed = getIndex toyIndexes distance_needed
   \<and> getIndex toyWithoutDown field_location = getIndex toyIndexes field_location
   \<and> getIndex toyWithoutDown time_remaining = getIndex toyIndexes time_remaining
   \<and> getIndex toyWithoutDown score_differential = getIndex toyIndexes score_differential"
proof -
  have h1: "countNonEmpty (getIndex toyIndexes down_number) \<le> 1"
    by code_simp
  have h2: "card (indexes toyIndexes) \<noteq> 1"
    by code_simp
  have h3: "splitIndexByCharacteristic down_number toyIndexes = Inr (toyWithoutDown, [])"
    by (rule toy_split_by_down)
  from splitBy_single_category_drops_only[OF h1] h1 h2 h3 show ?thesis
    by auto
qed

text \<open>
  C5 as stated fails when the split characteristic is the only one tracked: the call
  returns no siblings, and the characteristic is still tracked and its partition is
  still populated.
\<close>

theorem splitBy_single_category_counterexample:
  "countNonEmpty (getIndex soleDown down_number) \<le> 1
   \<and> splitIndexByCharacteristic down_number soleDown = Inr (soleDown, [])
   \<and> down_number \<in> indexes soleDown
   \<and> getIndex soleDown down_number \<noteq> []"
  by code_simp

text \<open>
  C6, as the code has it. After a call that returns siblings on a set that tracked more
  than one characteristic (or none), the split characteristic is tracked neither by the
  mutated set nor by any sibling, and its partition is empty in each of them.
\<close>

theorem splitBy_drops_split_attribute:
  assumes ok: "splitIndexByCharacteristic c s = Inr (s', sibs)"
    and sibs: "sibs \<noteq> []"
    and more: "card (indexes s) \<noteq> 1"
  shows "c \<notin> indexes s' \<and> getIndex s' c = []
         \<and> (\<forall>t \<in> set sibs. c \<notin> indexes t \<and> getIndex t c = [])"
proof -
  let ?n = "countNonEmpty (getIndex s c) - 1"
  from ok sibs have many: "\<not> countNonEmpty (getIndex s c) \<le> 1"
    by (auto simp: splitIndexByCharacteristic_def Let_def)
  from split_success[OF ok many] obtain news where
    sp: "splitIndex c (getIndex (dropIndex s c) c) ?n = Inr (getIndex s' c, news c)" and
    ix: "indexes s' = indexes (dropIndex s c)" and
    sib: "\<forall>i < length sibs. indexes (sibs ! i) = indexes (dropIndex s c)
            \<and> (\<forall>b. getIndex (sibs ! i) b = news b ! i)"
    and len: "length sibs = ?n"
    by blast
  from more have cleared: "getIndex (dropIndex s c) c = []"
    and gone: "c \<notin> indexes (dropIndex s c)"
    by (simp_all add: getIndex_dropIndex indexes_dropIndex)
  from sp cleared have self: "getIndex s' c = []" and news: "news c = replicate ?n []"
    by (simp_all add: splitIndex_def)
  have "c \<notin> indexes t \<and> getIndex t c = []" if "t \<in> set sibs" for t
  proof -
    from that obtain i where i: "i < length sibs" and t: "t = sibs ! i"
      by (auto simp: in_set_conv_nth)
    with sib gone news len show ?thesis by simp
  qed
  with self gone ix show ?thesis by simp
qed

theorem splitBy_drops_split_attribute_witness:
  "splitIndexByCharacteristic distance_needed toyIndexes = Inr (toyRuns, [toyPunts])
   \<and> [toyPunts] \<noteq> []
   \<and> card (indexes toyIndexes) \<noteq> 1
   \<and> distance_needed \<notin> indexes toyRuns \<and> getIndex toyRuns distance_needed = []
   \<and> distance_needed \<notin> indexes toyPunts \<and> getIndex toyPunts distance_needed = []"
proof -
  have h1: "splitIndexByCharacteristic distance_needed toyIndexes = Inr (toyRuns, [toyPunts])"
    by (rule toy_split_by_distance)
  have h2: "[toyPunts] \<noteq> []"
    by simp
  have h3: "card (indexes toyIndexes) \<noteq> 1"
    by code_simp
  from splitBy_drops_split_attribute[OF h1 h2 h3] h1 h2 h3 show ?thesis
    by simp
qed

text \<open>
  C6 as stated fails when the split characteristic is the only one tracked: siblings are
  returned, and the characteristic is still tracked, with a populated partition, in the
  mutated set and in the sibling.
\<close>

theorem splitBy_drops_split_attribute_counterexample:
  "splitIndexByCharacteristic distance_needed soleDistance
     = Inr (soleDistanceRuns, [soleDistancePunts])
   \<and> [soleDistancePunts] \<noteq> []
   \<and> distance_needed \<in> indexes soleDistanceRuns
   \<and> getIndex soleDistanceRuns distance_needed \<noteq> []
   \<and> distance_needed \<in> indexes soleDistancePunts
   \<and> getIndex soleDistancePunts distance_needed \<noteq> []"
  by code_simp

section \<open>Lemmas: the shape of constructed and pruned trees\<close>

lemma buildChildren_wellFormed:
  assumes node: "\<And>s t. buildNode ratio fuel s sd = Some (Inr t) \<Longrightarrow> wellFormed t"
  shows "buildChildren ratio fuel ss sd = Some (Inr ts) \<Longrightarrow>
           list_all wellFormed ts \<and> length ts = length ss"
proof (induction ss arbitrary: ts)
  case Nil
  then show ?case by simp
next
  case (Cons s ss)
  from Cons.prems obtain t rest where t: "buildNode ratio fuel s sd = Some (Inr t)"
    and rest: "buildChildren ratio fuel ss sd = Some (Inr rest)" and ts: "ts = t # rest"
    by (auto split: option.splits sum.splits)
  from node[OF t] Cons.IH[OF rest] ts show ?case by simp
qed

lemma buildNode_Suc_cases:
  assumes "buildNode ratio (Suc fuel) s sd = Some (Inr t)"
  defines "st \<equiv> selectSplit ratio (indexesToPlayCounts s) s"
  shows "indexesToPlayCounts s \<noteq> [] \<and>
    ((\<not> MinInformationGain \<le> snd (snd st)
        \<and> (\<exists>pd. buildDetailedData (fst st) sd = Inr pd
               \<and> t = DecisionNode [] (fst (snd st)) [] pd))
     \<or> (MinInformationGain \<le> snd (snd st)
        \<and> (\<exists>c s2 newIndexes children.
              fst (snd st) = Some c
              \<and> splitIndexByCharacteristic c (fst st) = Inr (s2, newIndexes)
              \<and> newIndexes \<noteq> []
              \<and> buildChildren ratio fuel (s2 # newIndexes) sd = Some (Inr children)
              \<and> t = DecisionNode children (Some c) (buildMapping (getIndex (fst st) c) 0) [])))"
  using assms(1) unfolding st_def
  by (simp add: Let_def del: buildChildren.simps
        split: if_splits option.splits sum.splits prod.splits)

lemma buildNode_wellFormed:
  "buildNode ratio fuel s sd = Some (Inr t) \<Longrightarrow> wellFormed t"
proof (induction fuel arbitrary: s t)
  case 0
  then show ?case by simp
next
  case (Suc fuel)
  let ?st = "selectSplit ratio (indexesToPlayCounts s) s"
  from buildNode_Suc_cases[OF Suc.prems]
  consider (leaf) pd where "t = DecisionNode [] (fst (snd ?st)) [] pd"
    | (decision) c s2 newIndexes children where
        "newIndexes \<noteq> []"
        "buildChildren ratio fuel (s2 # newIndexes) sd = Some (Inr children)"
        "t = DecisionNode children (Some c) (buildMapping (getIndex (fst ?st) c) 0) []"
    by blast
  then show ?case
  proof cases
    case leaf
    then show ?thesis by simp
  next
    case decision
    from buildChildren_wellFormed[OF Suc.IH decision(2)]
    have "list_all wellFormed children" and "length children = Suc (length newIndexes)"
      by simp_all
    with decision(1,3) show ?thesis by (cases newIndexes) simp_all
  qed
qed

lemma pruneTree_wellFormed:
  "wellFormed t \<Longrightarrow> pruneTree g pos t = Inr t' \<Longrightarrow> wellFormed t'"
  and pruneChildren_wellFormed:
  "list_all wellFormed cs \<Longrightarrow> pruneChildren g pos i cs = Inr cs' \<Longrightarrow>
     list_all wellFormed cs' \<and> length cs' = length cs"
proof (induction g pos t and g pos i cs arbitrary: t' and cs' rule: pruneTree_pruneChildren.induct)
  case (1 garbage pos cs dv mapping pd)
  show ?case
  proof (cases "cs = []")
    case True
    with "1.prems" show ?thesis by auto
  next
    case False
    with "1.prems"(2) obtain cs1 where kids: "pruneChildren garbage pos 0 cs = Inr cs1"
      and rest: "(if \<not> list_all isLeaf cs1 then Inr (DecisionNode cs1 dv mapping pd)
        else if shouldPrune (garbage pos) cs1
        then bindE (mergeChildren (playData (hd cs1)) (tl cs1)) (\<lambda>pd'.
               Inr (DecisionNode [] dv mapping pd'))
        else Inr (DecisionNode cs1 dv mapping pd)) = Inr t'"
      by (auto simp: bindE_Inr_iff)
    from "1.prems"(1) have "list_all wellFormed cs" by simp
    from "1.IH"[OF False this kids]
    have wf: "list_all wellFormed cs1" and len: "length cs1 = length cs" by simp_all
    from "1.prems"(1) False len have "2 \<le> length cs1" by simp
    with rest wf show ?thesis
      by (auto simp: bindE_Inr_iff split: if_splits)
  qed
next
  case (2 garbage pos i)
  then show ?case by simp
next
  case (3 garbage pos i c cs)
  from "3.prems"(2) obtain c1 cs1
    where c1: "(if isLeaf c then Inr c else pruneTree garbage (pos @ [i]) c) = Inr c1"
    and cs1: "pruneChildren garbage pos (Suc i) cs = Inr cs1" and res: "cs' = c1 # cs1"
    by (auto simp: bindE_Inr_iff)
  from "3.prems"(1) have wc: "wellFormed c" and wcs: "list_all wellFormed cs" by simp_all
  have "wellFormed c1"
  proof (cases "isLeaf c")
    case True
    with c1 wc show ?thesis by simp
  next
    case False
    with c1 have "pruneTree garbage (pos @ [i]) c = Inr c1" by simp
    from "3.IH"(1)[OF False wc this] show ?thesis .
  qed
  moreover from "3.IH"(2)[OF wcs cs1]
  have "list_all wellFormed cs1 \<and> length cs1 = length cs" .
  ultimately show ?case using res by simp
qed

lemma pruneChildren_length:
  "pruneChildren g pos i cs = Inr cs' \<Longrightarrow> length cs' = length cs"
proof (induction cs arbitrary: i cs')
  case Nil
  then show ?case by simp
next
  case (Cons c cs)
  from Cons.prems obtain c1 cs1 where "pruneChildren g pos (Suc i) cs = Inr cs1" "cs' = c1 # cs1"
    by (auto simp: bindE_Inr_iff)
  with Cons.IH show ?case by auto
qed

lemma pruneTree_leaf: "isLeaf t \<Longrightarrow> pruneTree g pos t = Inr t"
  by (cases t) (simp add: isLeaf_def)

lemma pruneTree_same_garbage_idempotent:
  "pruneTree g pos t = Inr t' \<Longrightarrow> pruneTree g pos t' = Inr t'"
  and pruneChildren_same_garbage_idempotent:
  "pruneChildren g pos i cs = Inr cs' \<Longrightarrow> pruneChildren g pos i cs' = Inr cs'"
proof (induction g pos t and g pos i cs arbitrary: t' and cs' rule: pruneTree_pruneChildren.induct)
  case (1 garbage pos cs dv mapping pd)
  show ?case
  proof (cases "cs = []")
    case True
    with "1.prems" show ?thesis by auto
  next
    case False
    with "1.prems" obtain cs1 where kids: "pruneChildren garbage pos 0 cs = Inr cs1"
      and rest: "(if \<not> list_all isLeaf cs1 then Inr (DecisionNode cs1 dv mapping pd)
        else if shouldPrune (garbage pos) cs1
        then bindE (mergeChildren (playData (hd cs1)) (tl cs1)) (\<lambda>pd'.
               Inr (DecisionNode [] dv mapping pd'))
        else Inr (DecisionNode cs1 dv mapping pd)) = Inr t'"
      by (auto simp: bindE_Inr_iff)
    from "1.IH"[OF False kids] have again: "pruneChildren garbage pos 0 cs1 = Inr cs1" .
    from pruneChildren_length[OF kids] False have ne: "cs1 \<noteq> []" by auto
    show ?thesis
    proof (cases "list_all isLeaf cs1 \<and> shouldPrune (garbage pos) cs1")
      case True
      with rest obtain pd' where "t' = DecisionNode [] dv mapping pd'"
        by (auto simp: bindE_Inr_iff)
      then show ?thesis by simp
    next
      case False
      with rest have "t' = DecisionNode cs1 dv mapping pd" by (auto split: if_splits)
      with again ne False show ?thesis by (auto simp: bindE_def)
    qed
  qed
next
  case (2 garbage pos i)
  then show ?case by simp
next
  case (3 garbage pos i c cs)
  from "3.prems" obtain c1 cs1 where c1: "(if isLeaf c then Inr c else pruneTree garbage (pos @ [i]) c) = Inr c1"
    and cs1: "pruneChildren garbage pos (Suc i) cs = Inr cs1" and res: "cs' = c1 # cs1"
    by (auto simp: bindE_Inr_iff)
  have "(if isLeaf c1 then Inr c1 else pruneTree garbage (pos @ [i]) c1) = Inr c1"
  proof (cases "isLeaf c")
    case True
    with c1 show ?thesis by simp
  next
    case False
    with c1 have "pruneTree garbage (pos @ [i]) c = Inr c1" by simp
    from "3.IH"(1)[OF False this] show ?thesis by simp
  qed
  moreover from "3.IH"(2)[OF cs1] have "pruneChildren garbage pos (Suc i) cs1 = Inr cs1" .
  ultimately show ?case using res by (simp add: bindE_def)
qed

lemma findPlays_unmapped_category:
  assumes "\<not> isLeaf n"
    and "testValueOf (decisionValue n) dwn togo fl tr sd = v"
    and "0 \<le> v" and "v < int (length (categoryChildMapping n))"
    and "categoryChildMapping n ! nat v < 0"
  shows "findPlaysByCategory n dwn togo fl tr sd = Inr (playData n)"
  using assms by (subst findPlaysByCategory.simps) (simp add: Let_def)

lemma findPlays_value_out_of_range:
  assumes "\<not> isLeaf n"
    and "testValueOf (decisionValue n) dwn togo fl tr sd = v"
    and "v < 0 \<or> int (length (categoryChildMapping n)) \<le> v"
  shows "findPlaysByCategory n dwn togo fl tr sd = Inl OutOfRange"
  using assms by (subst findPlaysByCategory.simps) (auto simp: Let_def)




lemma countPlayType_same:
  "countPlayType t [(t, k)] = [(t, toUShort (k + 1))]"
  by simp

lemma fold_countPlayType_single:
  "\<forall>p \<in> set ps. playType p = t \<Longrightarrow>
     \<exists>k'. fold (\<lambda>p m. countPlayType (playType p) m) ps [(t, k)] = [(t, k')]"
  by (induction ps arbitrary: k) simp_all

lemma indexesToPlayCounts_single:
  assumes "characteristicList (getIndexesAvailable s) = first # others"
    and "concat (getIndex s first) \<noteq> []"
    and "\<forall>p \<in> set (concat (getIndex s first)). playType p = t"
  shows "\<exists>k. indexesToPlayCounts s = [(t, k)]"
proof -
  from assms(2) obtain p ps where ps: "concat (getIndex s first) = p # ps"
    by (cases "concat (getIndex s first)") simp_all
  with assms(3) have "playType p = t" and "\<forall>p \<in> set ps. playType p = t" by simp_all
  with fold_countPlayType_single[of ps t 1] ps assms(1) show ?thesis
    by (simp add: indexesToPlayCounts_def)
qed

lemma playTypeIdx_less: "playTypeIdx t < 11"
  by (cases t) simp_all

lemma playTypeIdx_inj: "playTypeIdx t = playTypeIdx u \<longleftrightarrow> t = u"
  by (cases t; cases u) simp_all

lemma fold_countPlay_single:
  "\<forall>p \<in> set ps. playType p = t \<Longrightarrow> playTypeIdx t < length ds \<Longrightarrow>
     fst (fold countPlay ps (ds, ts))
       = ds[playTypeIdx t := ds ! playTypeIdx t @ map distanceGained ps]"
proof (induction ps arbitrary: ds ts)
  case Nil
  then show ?case by simp
next
  case (Cons p ps)
  let ?i = "playTypeIdx t"
  let ?ds = "ds[?i := ds ! ?i @ [distanceGained p]]"
  from Cons.prems have p: "playType p = t" and rest: "\<forall>p \<in> set ps. playType p = t" by simp_all
  obtain ts' where step: "countPlay p (ds, ts) = (?ds, ts')"
    by (simp add: countPlay_def Let_def p)
  from Cons.prems(2) have "?i < length ?ds" by simp
  from Cons.IH[OF rest this, of ts'] step Cons.prems(2) show ?case
    by simp
qed

lemma insertSummaries_single:
  assumes "distinct ts"
    and "\<forall>u \<in> set ts. u \<noteq> t \<longrightarrow> distances ! playTypeIdx u = []"
    and "distances ! playTypeIdx t \<noteq> []"
    and "playTypeIdx t < length sd"
    and "newDetailedPlaySummary (distances ! playTypeIdx t) (turnovers ! playTypeIdx t) n
           (sd ! playTypeIdx t) = Inr d"
  shows "insertSummaries ts distances turnovers n sd = Inr (if t \<in> set ts then [(t, d)] else [])"
  using assms(1,2)
proof (induction ts)
  case Nil
  then show ?case by simp
next
  case (Cons u ts)
  from Cons.prems have IH: "insertSummaries ts distances turnovers n sd
      = Inr (if t \<in> set ts then [(t, d)] else [])"
    by (intro Cons.IH) simp_all
  show ?case
  proof (cases "u = t")
    case True
    with Cons.prems(1) have "t \<notin> set ts" by simp
    with True IH assms(3,4,5) show ?thesis by (simp add: bindE_def)
  next
    case False
    with Cons.prems(2) have "distances ! playTypeIdx u = []" by simp
    with False IH show ?thesis by simp
  qed
qed

lemma fold_lengths:
  "fold (\<lambda>ds acc. toShort (acc + int (length ds))) dss (toShort a)
     = toShort (a + int (sum_list (map length dss)))"
proof (induction dss arbitrary: a)
  case Nil
  then show ?case by simp
next
  case (Cons ds dss)
  have "toShort (toShort a + int (length ds)) = toShort (a + int (length ds))"
    by (rule toShort_toShort_add)
  with Cons.IH[of "a + int (length ds)"] show ?case
    by (simp add: add.assoc)
qed

lemma distinct_allPlayTypes: "distinct allPlayTypes"
  by (simp add: allPlayTypes_def)

lemma in_allPlayTypes: "t \<in> set allPlayTypes"
  by (cases t) (simp_all add: allPlayTypes_def)

text \<open>The leaf of an index set with a single play type, whatever its size.\<close>

lemma single_type_leaf:
  assumes tracked: "characteristicList (getIndexesAvailable s) = first # others"
    and nonempty: "concat (getIndex s first) \<noteq> []"
    and single: "\<forall>p \<in> set (concat (getIndex s first)). playType p = t"
    and baseline: "playTypeIdx t < length sd"
    and detail: "newDetailedPlaySummary (map distanceGained (concat (getIndex s first)))
           (snd (indexesToCounts s (replicate getPlayTypeCount [], replicate getPlayTypeCount 0))
              ! playTypeIdx t)
           (toShort (int (length (concat (getIndex s first))))) (sd ! playTypeIdx t) = Inr d"
  shows "buildNode ratio (Suc fuel) s sd = Some (Inr (DecisionNode [] None [] [(t, d)]))"
proof -
  let ?plays = "concat (getIndex s first)"
  let ?i = "playTypeIdx t"
  let ?counts = "indexesToCounts s (replicate getPlayTypeCount [], replicate getPlayTypeCount 0)"
  have eleven: "getPlayTypeCount = 11" by (simp add: getPlayTypeCount_def)
  from indexesToPlayCounts_single[OF tracked nonempty single]
  obtain k where ptc: "indexesToPlayCounts s = [(t, k)]" by blast
  then have sel: "selectSplit ratio (indexesToPlayCounts s) s = (s, None, 0)"
    by (simp add: selectSplit_def)
  have dists: "fst ?counts = (replicate 11 [])[?i := map distanceGained ?plays]"
    using fold_countPlay_single[OF single, of "replicate 11 []" "replicate 11 0"] tracked
    by (simp add: indexesToCounts_def eleven playTypeIdx_less)
  have at_t: "fst ?counts ! ?i = map distanceGained ?plays"
    by (simp add: dists playTypeIdx_less)
  have others: "\<forall>u \<in> set allPlayTypes. u \<noteq> t \<longrightarrow> fst ?counts ! playTypeIdx u = []"
    by (simp add: dists playTypeIdx_less playTypeIdx_inj)
  have "sum_list (map length (fst ?counts)) = length ?plays"
    by (simp add: dists map_update sum_list_update sum_list_replicate playTypeIdx_less)
  with fold_lengths[of "fst ?counts" 0]
  have total: "fold (\<lambda>ds acc. toShort (acc + int (length ds))) (fst ?counts) 0
      = toShort (int (length ?plays))"
    by (simp add: toShort_0)
  from nonempty have ne: "fst ?counts ! ?i \<noteq> []" by (simp add: at_t)
  from detail have detail': "newDetailedPlaySummary (fst ?counts ! ?i) (snd ?counts ! ?i)
      (toShort (int (length ?plays))) (sd ! ?i) = Inr d"
    by (simp add: at_t)
  from insertSummaries_single[OF distinct_allPlayTypes others ne baseline detail']
  have "buildDetailedData s sd = Inr [(t, d)]"
    by (simp add: buildDetailedData_def Let_def total in_allPlayTypes)
  with ptc sel show ?thesis
    by (simp add: Let_def MinInformationGain_def)
qed

lemma toShort_id: "0 \<le> n \<Longrightarrow> n < 32768 \<Longrightarrow> toShort n = n"
  by (simp add: toShort_def mod_pos_pos_trivial)

lemma cdiv_self_1000: "n \<noteq> 0 \<Longrightarrow> cdiv (n * 1000) n = 1000"
proof -
  assume n: "n \<noteq> 0"
  have "\<bar>n * 1000\<bar> div \<bar>n\<bar> = 1000"
    using n by (simp add: abs_mult)
  moreover have "sgn (n * 1000) * sgn n = 1"
    using n by (cases "n < 0") (simp_all add: sgn_mult)
  ultimately show ?thesis by (simp add: cdiv_def)
qed

lemma fold_countPlay_no_turnover:
  "\<forall>p \<in> set ps. \<not> turnedOver p \<Longrightarrow> snd (fold countPlay ps (ds, ts)) = ts"
proof (induction ps arbitrary: ds)
  case Nil
  then show ?case by simp
next
  case (Cons p ps)
  then show ?case by (simp add: countPlay_def Let_def)
qed

lemma huge_plays:
  "length hugePlays = 32768"
  "\<forall>p \<in> set hugePlays. playType p = run_left"
  "\<forall>p \<in> set hugePlays. \<not> turnedOver p"
  "map distanceGained hugePlays = replicate 32768 3"
  by (simp_all add: hugePlays_def examplePlay_def comp_def map_replicate_const)

lemma huge_first:
  "characteristicList (getIndexesAvailable hugeIndexes)
     = down_number # [distance_needed, field_location, time_remaining, score_differential]"
  "concat (getIndex hugeIndexes down_number) = hugePlays"
  "concat (downIndex hugeIndexes) = hugePlays"
  by (simp_all add: hugeIndexes_def characteristicList_def allCharacteristics_def
      getIndexesAvailable_def)

lemma huge_counts:
  "indexesToCounts hugeIndexes (replicate getPlayTypeCount [], replicate getPlayTypeCount 0)
     = ((replicate 11 [])[0 := replicate 32768 3], replicate 11 0)"
proof -
  have eleven: "getPlayTypeCount = 11" by (simp add: getPlayTypeCount_def)
  have "fst (fold countPlay hugePlays (replicate 11 [], replicate 11 0))
      = (replicate 11 [])[0 := replicate 32768 3]"
    using fold_countPlay_single[OF huge_plays(2), of "replicate 11 []" "replicate 11 0"]
    by (simp add: huge_plays(4))
  moreover have "snd (fold countPlay hugePlays (replicate 11 [], replicate 11 0)) = replicate 11 0"
    using huge_plays(3) by (rule fold_countPlay_no_turnover)
  ultimately show ?thesis
    by (simp add: indexesToCounts_def huge_first eleven prod_eq_iff)
qed

lemma toShort_32768: "toShort 32768 = -32768"
  by (simp add: toShort_def)

lemma huge_baseline:
  "length hugeSummary = 11"
  "hugeSummary ! 0 = playStats 0 0 0 (-32768)"
proof -
  have eleven: "getPlayTypeCount = 11" by (simp add: getPlayTypeCount_def)
  show "length hugeSummary = 11"
    by (simp add: hugeSummary_def buildSummaryData_def Let_def eleven)
  have "hugeSummary ! 0 = newOverallPlaySummary (replicate 32768 3) 0"
    by (simp add: hugeSummary_def buildSummaryData_def huge_counts[unfolded eleven] eleven Let_def)
  also have "\<dots> = playStats 0 0 0 (-32768)"
    by (simp add: newOverallPlaySummary_def playStats_def toShort_32768)
  finally show "hugeSummary ! 0 = playStats 0 0 0 (-32768)" .
qed

lemma sort_replicate: "sort (replicate n (x::int)) = replicate n x"
  by (rule sorted_sort_id) (simp add: sorted_replicate)

section \<open>Lemmas: the bit sets of the pruning scan\<close>












section \<open>Lemmas: merging keeps the baselines\<close>




lemma updateConditionStats_overall:
  "updateConditionStats d n = Inr d' \<Longrightarrow> overallStats d' = overallStats d"
  by (auto simp: updateConditionStats_def bindE_Inr_iff)

lemma merge_overall:
  "merge d other n = Inr d' \<Longrightarrow> overallStats d' = overallStats d"
  by (auto simp: merge_def Let_def bindE_Inr_iff dest!: updateConditionStats_overall)

lemma advance_overall:
  "advance n k passed rest = Inr (passed', rest') \<Longrightarrow>
     map (\<lambda>e. (fst e, overallStats (snd e))) (passed' @ rest')
       = map (\<lambda>e. (fst e, overallStats (snd e))) (passed @ rest)"
proof (induction rest arbitrary: passed)
  case Nil
  then show ?case by simp
next
  case (Cons e rest)
  obtain k' r where e: "e = (k', r)" by (cases e)
  show ?case
  proof (cases "playTypeIdx k' < playTypeIdx k")
    case True
    with Cons.prems e obtain r' where r': "updateConditionStats r n = Inr r'"
      and rec: "advance n k (passed @ [(k', r')]) rest = Inr (passed', rest')"
      by (auto simp: bindE_Inr_iff)
    from Cons.IH[OF rec] updateConditionStats_overall[OF r'] e show ?thesis by simp
  next
    case False
    with Cons.prems e show ?thesis by simp
  qed
qed

text \<open>The baseline of every entry of the merged map is the baseline of an entry that went in.\<close>

lemma mergeLoop_overall:
  "mergeLoop n passed rest others = Inr merged \<Longrightarrow>
     set (map (\<lambda>e. (fst e, overallStats (snd e))) merged)
       \<subseteq> set (map (\<lambda>e. (fst e, overallStats (snd e))) (passed @ rest @ others))"
proof (induction others arbitrary: passed rest)
  case Nil
  then show ?case by auto
next
  case (Cons entry others)
  note IH = Cons.IH
  obtain k d where o: "entry = (k, d)" by (cases entry)
  let ?f = "\<lambda>e. (fst e, overallStats (snd e))"
  from Cons.prems o obtain passed' rest' where adv: "advance n k passed rest = Inr (passed', rest')"
    and step: "(case rest' of
         (k', r) # rs \<Rightarrow>
           (if k' = k
            then bindE (merge r d n) (\<lambda>r'. mergeLoop n passed' ((k', r') # rs) others)
            else bindE (updateConditionStats d n) (\<lambda>d'.
                   mergeLoop n passed' ((k, d') # (k', r) # rs) others))
       | [] \<Rightarrow> bindE (updateConditionStats d n) (\<lambda>d'. mergeLoop n passed' [(k, d')] others))
       = Inr merged"
    by (auto simp: bindE_Inr_iff)
  note same = advance_overall[OF adv]
  let ?target = "set (map ?f (passed @ rest @ entry # others))"
  have pr: "set (map ?f (passed' @ rest')) \<union> insert (?f entry) (set (map ?f others)) = ?target"
    using same by (simp only: map_append set_append list.map list.set) auto
  have finish: "set (map ?f merged) \<subseteq> ?target"
    if rec: "mergeLoop n passed' rest'' others = Inr merged"
      and inside: "set (map ?f rest'') \<subseteq> set (map ?f rest') \<union> {?f entry}"
    for rest''
  proof -
    from IH[OF rec] have "set (map ?f merged) \<subseteq> set (map ?f (passed' @ rest'' @ others))" .
    also have "\<dots> \<subseteq> set (map ?f (passed' @ rest')) \<union> insert (?f entry) (set (map ?f others))"
      using inside by auto
    finally show ?thesis by (simp only: pr)
  qed
  show ?case
  proof (cases rest')
    case Nil
    with step obtain d' where d': "updateConditionStats d n = Inr d'"
      and rec: "mergeLoop n passed' [(k, d')] others = Inr merged"
      by (auto simp: bindE_Inr_iff)
    show ?thesis
      using updateConditionStats_overall[OF d'] o by (intro finish[OF rec]) simp
  next
    case (Cons e rs)
    obtain k' r where e: "e = (k', r)" by (cases e)
    show ?thesis
    proof (cases "k' = k")
      case True
      with step Cons e obtain r' where r': "merge r d n = Inr r'"
        and rec: "mergeLoop n passed' ((k', r') # rs) others = Inr merged"
        by (auto simp: bindE_Inr_iff)
      show ?thesis
        using merge_overall[OF r'] Cons e by (intro finish[OF rec]) auto
    next
      case False
      with step Cons e obtain d' where d': "updateConditionStats d n = Inr d'"
        and rec: "mergeLoop n passed' ((k, d') # (k', r) # rs) others = Inr merged"
        by (auto simp: bindE_Inr_iff)
      show ?thesis
        using updateConditionStats_overall[OF d'] Cons e o by (intro finish[OF rec]) auto
    qed
  qed
qed

lemma mergeData_keeps_baselines:
  "mergeData result other = Inr merged \<Longrightarrow>
     set (map (\<lambda>e. (fst e, overallStats (snd e))) merged)
       \<subseteq> set (map (\<lambda>e. (fst e, overallStats (snd e))) (result @ other))"
  using mergeLoop_overall[of _ "[]" result other merged]
  by (simp add: mergeData_def Let_def)

section \<open>Claims about lookup and about the shape of the tree\<close>

text \<open>
  C2. \<open>findPlays\<close> can raise an error on a built tree. The public overload hands the
  raw distance on where the private overload expects a distance category, and
  \<open>_categoryChildMapping.at\<close> throws \<open>std::out_of_range\<close> for the tree built from the
  toy plays (a decision on the distance) and a third down with fifteen yards to go.
\<close>

theorem findPlays_raises_on_raw_distance:
  "buildIndexes [toyPlay1, toyPlay2, toyPlay3, toyPlay4] = Inr (toyIndexes, toySummary)
   \<and> buildNode unitRatio 2 toyIndexes toySummary = Some (Inr toyTree)
   \<and> findPlays toyTree 3 15 50 10 0 0 = Inl OutOfRange"
proof -
  have "findPlays toyTree 3 15 50 10 0 0 = Inl OutOfRange"
    by code_simp
  with toy_buildIndexes toy_build show ?thesis by simp
qed

text \<open>
  C10. Every node of a tree that the constructor returns has no child or at least two
  children, and so has every node of what \<open>pruneTree\<close> makes of that tree, whatever the
  uninitialised counter holds.
\<close>

theorem constructed_and_pruned_trees_are_wellFormed:
  assumes "buildNode ratio fuel s sd = Some (Inr t)"
  shows "wellFormed t \<and> (\<forall>garbage pos t'. pruneTree garbage pos t = Inr t' \<longrightarrow> wellFormed t')"
proof -
  from assms have "wellFormed t" by (rule buildNode_wellFormed)
  then show ?thesis by (auto intro: pruneTree_wellFormed)
qed

theorem constructed_and_pruned_trees_are_wellFormed_witness:
  "buildNode (constRatio (27 / 100)) 2 threeIndexes threeSummary = Some (Inr threeTree)
   \<and> wellFormed threeTree
   \<and> pruneTree (\<lambda>pos. 0) [] threeTree = Inr threeMerged
   \<and> wellFormed threeMerged"
proof -
  from constructed_and_pruned_trees_are_wellFormed[OF three_build]
  have "wellFormed threeTree"
    and "pruneTree (\<lambda>pos. 0) [] threeTree = Inr threeMerged \<longrightarrow> wellFormed threeMerged"
    by blast+
  with three_build three_prune show ?thesis by simp
qed

section \<open>Claims about construction\<close>



text \<open>
  C4, as the code has it. For an index set whose first tracked partition holds at least
  one and fewer than 32768 plays, all of one play type, and overall statistics that have
  an entry with a non-zero count for that play type, the constructor yields a leaf whose
  summary map has exactly one entry, for that play type, with a play count equal to the
  number of plays.
\<close>

theorem single_play_type_builds_full_count_leaf:
  assumes tracked: "characteristicList (getIndexesAvailable s) = first # others"
    and nonempty: "concat (getIndex s first) \<noteq> []"
    and single: "\<forall>p \<in> set (concat (getIndex s first)). playType p = t"
    and fits: "length (concat (getIndex s first)) < 32768"
    and baseline: "playTypeIdx t < length sd"
    and counted: "totalCount (sd ! playTypeIdx t) \<noteq> 0"
  shows "\<exists>d. buildNode ratio (Suc fuel) s sd = Some (Inr (DecisionNode [] None [] [(t, d)]))
             \<and> getPlayCount d = int (length (concat (getIndex s first)))"
proof -
  let ?plays = "concat (getIndex s first)"
  let ?n = "int (length ?plays)"
  from nonempty fits have n: "toShort ?n = ?n" and pos: "?n \<noteq> 0"
    by (simp_all add: toShort_id)
  from pos counted obtain d where
    d: "newDetailedPlaySummary (map distanceGained ?plays)
           (snd (indexesToCounts s (replicate getPlayTypeCount [], replicate getPlayTypeCount 0))
              ! playTypeIdx t)
           (toShort ?n) (sd ! playTypeIdx t) = Inr d"
    and dist: "playDistances d = sort (map distanceGained ?plays)"
    by (simp add: newDetailedPlaySummary_def perMille_def bindE_def n)
  from dist have "getPlayCount d = ?n"
    by (simp add: getPlayCount_def n)
  with single_type_leaf[OF tracked nonempty single baseline d] show ?thesis
    by blast
qed

theorem single_play_type_builds_full_count_leaf_witness:
  "characteristicList (getIndexesAvailable toyRuns)
     = down_number # [field_location, time_remaining, score_differential]
   \<and> concat (getIndex toyRuns down_number) = [toyPlay1, toyPlay2]
   \<and> map playType (concat (getIndex toyRuns down_number)) = [run_left, run_left]
   \<and> length (concat (getIndex toyRuns down_number)) < 32768
   \<and> playTypeIdx run_left < length toySummary
   \<and> totalCount (toySummary ! playTypeIdx run_left) \<noteq> 0
   \<and> buildNode unitRatio 1 toyRuns toySummary = Some (Inr toyRunsLeaf)
   \<and> (\<exists>d. buildNode unitRatio (Suc 0) toyRuns toySummary
               = Some (Inr (DecisionNode [] None [] [(run_left, d)]))
           \<and> getPlayCount d = int (length (concat (getIndex toyRuns down_number))))"
proof -
  have h1: "characteristicList (getIndexesAvailable toyRuns)
     = down_number # [field_location, time_remaining, score_differential]"
    by code_simp
  have plays: "concat (getIndex toyRuns down_number) = [toyPlay1, toyPlay2]"
    by code_simp
  have types: "map playType (concat (getIndex toyRuns down_number)) = [run_left, run_left]"
    by code_simp
  have h2: "concat (getIndex toyRuns down_number) \<noteq> []"
    unfolding plays by simp
  have h3: "\<forall>p \<in> set (concat (getIndex toyRuns down_number)). playType p = run_left"
    using types unfolding plays by simp
  have h4: "length (concat (getIndex toyRuns down_number)) < 32768"
    unfolding plays by simp
  have h5: "playTypeIdx run_left < length toySummary"
    by code_simp
  have h6: "totalCount (toySummary ! playTypeIdx run_left) \<noteq> 0"
    by code_simp
  have leaf: "buildNode unitRatio 1 toyRuns toySummary = Some (Inr toyRunsLeaf)"
    by code_simp
  from single_play_type_builds_full_count_leaf[OF h1 h2 h3 h4 h5 h6, of unitRatio 0]
  show ?thesis
    by (intro conjI h1 plays types h4 h5 h6 leaf)
qed

text \<open>
  C4 as stated fails on an index set of 32768 runs: the constructor yields a leaf with one
  entry, and the play count of that entry, a \<open>short\<close>, is -32768.
\<close>

theorem single_play_type_counterexample:
  "buildNode unitRatio 1 hugeIndexes hugeSummary = Some (Inr hugeLeaf)
   \<and> recordCount (getIndex hugeIndexes down_number) = 32768
   \<and> length (playData hugeLeaf) = 1
   \<and> getPlayCount (snd (hd (playData hugeLeaf))) = -32768"
proof -
  have per: "perMille (replicate 32768 3) (-32768) = Inr 1000"
    by (simp add: perMille_def toShort_32768 cdiv_def toShort_def)
  have detail:
    "newDetailedPlaySummary (map distanceGained (concat (getIndex hugeIndexes down_number)))
       (snd (indexesToCounts hugeIndexes
               (replicate getPlayTypeCount [], replicate getPlayTypeCount 0))
          ! playTypeIdx run_left)
       (toShort (int (length (concat (getIndex hugeIndexes down_number)))))
       (hugeSummary ! playTypeIdx run_left)
     = Inr (playDetail (replicate 32768 3) 0 (playStats 0 0 0 (-32768))
              (playStats 0 0 0 (-32768)) 1000 1000)"
    by (simp add: huge_first huge_plays huge_counts huge_baseline toShort_32768
        newDetailedPlaySummary_def sort_replicate per bindE_def playDetail_def
        newOverallPlaySummary_def playStats_def)
  have nonempty: "concat (getIndex hugeIndexes down_number) \<noteq> []"
    using huge_plays(1) by (auto simp: huge_first)
  have single: "\<forall>p \<in> set (concat (getIndex hugeIndexes down_number)). playType p = run_left"
    using huge_plays(2) by (simp add: huge_first)
  have baseline: "playTypeIdx run_left < length hugeSummary"
    by (simp add: huge_baseline)
  from single_type_leaf[OF huge_first(1) nonempty single baseline detail, of unitRatio 0]
  have "buildNode unitRatio 1 hugeIndexes hugeSummary = Some (Inr hugeLeaf)"
    by (simp add: hugeLeaf_def)
  moreover have "recordCount (getIndex hugeIndexes down_number) = 32768"
    by (simp add: recordCount_def hugeIndexes_def huge_plays)
  moreover have "length (playData hugeLeaf) = 1"
    by (simp add: hugeLeaf_def)
  moreover have "getPlayCount (snd (hd (playData hugeLeaf))) = -32768"
    by (simp add: hugeLeaf_def getPlayCount_def playDetail_def toShort_32768)
  ultimately show ?thesis by simp
qed

section \<open>Claims about pruning and merging\<close>







text \<open>
  C8. Merging the summaries of the two leaves of the tree of the three plays: the
  combined total is three plays. The run is recomputed (two of three plays, 666), but
  the punt, whose key lies behind the last key merged in, keeps the share it had in its
  own leaf (500) instead of one play in three (333).
\<close>

theorem mergeData_leaves_trailing_share_stale:
  "mergeData threeFirstDown threeSecondDown = Inr threeMergedData
   \<and> map fst threeMergedData = [run_left, punt]
   \<and> map (\<lambda>e. getPlayCount (snd e)) threeMergedData = [2, 1]
   \<and> map (\<lambda>e. percentOfConditionPlays (snd e)) threeMergedData = [666, 500]
   \<and> cdiv (1 * 1000) 3 = 333"
  by code_simp

text \<open>
  C9. The tree of the five plays is left as it is by a pruning pass whose counter
  starts from zero and is merged by a pass whose counter starts from seventeen: two
  passes in succession need not give what one pass gives.
\<close>

theorem pruneTree_twice_depends_on_garbage:
  "buildNode (constRatio (18 / 100)) 2 fiveIndexes fiveSummary = Some (Inr fiveTree)
   \<and> pruneTree (\<lambda>pos. 0) [] fiveTree = Inr fiveTree
   \<and> pruneTree (\<lambda>pos. 17) [] fiveTree = Inr fiveMerged
   \<and> fiveMerged \<noteq> fiveTree"
proof -
  have "pruneTree (\<lambda>pos. 0) [] fiveTree = Inr fiveTree"
    by code_simp
  moreover have "pruneTree (\<lambda>pos. 17) [] fiveTree = Inr fiveMerged"
    by code_simp
  moreover have "fiveMerged \<noteq> fiveTree"
    by code_simp
  ultimately show ?thesis using five_build by simp
qed

end
